theory Spec2Isabelle
  imports Main "HOL-Library.AList"
begin

section \<open>Values of the JavaScript runtime\<close>

text \<open>
  The two handlers of the repository (\<^verbatim>\<open>functions/api/google-auth.ts\<close> and the sync
  handler that follows it in the same source file) work on JSON values. A JSON object is
  the list of its own properties, every key once, as \<^verbatim>\<open>JSON.parse\<close> returns it; the
  order of the list is the order of creation (JavaScript enumerates index-like names
  first; no statement below depends on the order of an object that a request sent).
  Numbers are mathematical integers: the only numbers the code computes with are
  millisecond timestamps. A character is a code unit below 256, so a string is a string of
  JavaScript whose code units are all below 256, as the value of a request header is.
  \<^verbatim>\<open>undefined\<close> is \<open>None\<close> of \<open>json option\<close>.
\<close>

datatype json =
    JNull
  | JBool bool
  | JNum int
  | JStr string
  | JArr "json list"
  | JObj "(string \<times> json) list"

text \<open>
  What a handler can throw: a \<^verbatim>\<open>TypeError\<close> or a \<^verbatim>\<open>RangeError\<close> of the runtime, or
  the \<^verbatim>\<open>Error\<close> with which the D1 client and the D1 service refuse a statement.
\<close>

datatype error = TypeError | RangeError | D1_ERROR

text \<open>The results of a list of steps in order, or the first error among them.\<close>

fun collect :: "(error + 'a) list \<Rightarrow> error + 'a list" where
  "collect [] = Inr []"
| "collect (x # xs) =
     (case x of
        Inl e \<Rightarrow> Inl e
      | Inr y \<Rightarrow> (case collect xs of Inl e \<Rightarrow> Inl e | Inr ys \<Rightarrow> Inr (y # ys)))"

text \<open>Truthiness, as \<^verbatim>\<open>if (x)\<close>, \<^verbatim>\<open>!x\<close>, \<^verbatim>\<open>x && y\<close> and \<^verbatim>\<open>Boolean(x)\<close> read a value.\<close>

fun truthy :: "json \<Rightarrow> bool" where
  "truthy JNull = False"
| "truthy (JBool b) = b"
| "truthy (JNum n) = (n \<noteq> 0)"
| "truthy (JStr s) = (s \<noteq> [])"
| "truthy (JArr xs) = True"
| "truthy (JObj ps) = True"

definition truthy_opt :: "json option \<Rightarrow> bool" where
  "truthy_opt v = (case v of None \<Rightarrow> False | Some x \<Rightarrow> truthy x)"

text \<open>
  Property access \<^verbatim>\<open>v.name\<close>: a \<^verbatim>\<open>TypeError\<close> on \<^verbatim>\<open>null\<close>, the own property of an
  object, \<^verbatim>\<open>undefined\<close> on every other value (none of the names the code reads,
  \<^verbatim>\<open>exp\<close>, \<^verbatim>\<open>userId\<close>, \<^verbatim>\<open>email\<close>, \<^verbatim>\<open>name\<close>, \<^verbatim>\<open>data\<close>, \<^verbatim>\<open>access_token\<close>, \<^verbatim>\<open>id\<close>,
  \<^verbatim>\<open>picture\<close>, is a property of a primitive's or an array's prototype; \<^verbatim>\<open>keys\<close> of an
  array is a function, which the one reader of \<^verbatim>\<open>body.keys\<close> treats like \<^verbatim>\<open>undefined\<close>).
\<close>

fun get_prop :: "json \<Rightarrow> string \<Rightarrow> error + json option" where
  "get_prop JNull k = Inl TypeError"
| "get_prop (JObj ps) k = Inr (map_of ps k)"
| "get_prop v k = Inr None"

text \<open>
  Decimal digits of a number, as \<^verbatim>\<open>String(n)\<close> prints an integer up to \<open>2^53\<close> in
  absolute value.
\<close>

fun show_nat :: "nat \<Rightarrow> string" where
  "show_nat n =
     (if n < 10 then [''0123456789'' ! n]
      else show_nat (n div 10) @ [''0123456789'' ! (n mod 10)])"

declare show_nat.simps [simp del]

definition show_int :: "int \<Rightarrow> string" where
  "show_int i = (if i < 0 then CHR ''-'' # show_nat (nat (- i)) else show_nat (nat i))"

fun join :: "string \<Rightarrow> string list \<Rightarrow> string" where
  "join sep [] = []"
| "join sep [x] = x"
| "join sep (x # y # ys) = x @ sep @ join sep (y # ys)"

text \<open>
  \<^verbatim>\<open>String.prototype.trim\<close> and \<^verbatim>\<open>split\<close> on a one-character separator. The white
  space and line terminators that \<^verbatim>\<open>trim\<close> strips are, among the code units below 256,
  the tab, the line feed, the vertical tab, the form feed, the carriage return, the space
  and the no-break space U+00A0.
\<close>

definition isWhiteSpace :: "char \<Rightarrow> bool" where
  "isWhiteSpace c =
     (c \<in> set [CHR 0x09, CHR 0x0A, CHR 0x0B, CHR 0x0C, CHR 0x0D, CHR '' '', CHR 0xA0])"

definition trim :: "string \<Rightarrow> string" where
  "trim s = rev (dropWhile isWhiteSpace (rev (dropWhile isWhiteSpace s)))"

fun split :: "char \<Rightarrow> string \<Rightarrow> string list" where
  "split sep [] = [[]]"
| "split sep (c # cs) =
     (if c = sep then [] # split sep cs
      else (case split sep cs of [] \<Rightarrow> [[c]] | p # ps \<Rightarrow> (c # p) # ps))"

text \<open>
  \<^verbatim>\<open>String.prototype.toUpperCase\<close>. Among the code units below 256 it maps the letters
  \<^verbatim>\<open>a\<close> to \<^verbatim>\<open>z\<close> and U+00E0 to U+00FE (without the division sign U+00F7) to the code
  unit 32 below, the sharp s U+00DF to \<^verbatim>\<open>SS\<close>, and the micro sign U+00B5 and
  U+00FF to code units above 255; it leaves every other code unit as it is. The result
  is \<open>None\<close> for a string that is mapped out of the code units below 256; such a result
  holds a code unit that is not ASCII.
\<close>

definition lower_letters :: string where
  "lower_letters =
     ''abcdefghijklmnopqrstuvwxyz''
     @ [CHR 0xE0, CHR 0xE1, CHR 0xE2, CHR 0xE3, CHR 0xE4, CHR 0xE5, CHR 0xE6, CHR 0xE7,
        CHR 0xE8, CHR 0xE9, CHR 0xEA, CHR 0xEB, CHR 0xEC, CHR 0xED, CHR 0xEE, CHR 0xEF,
        CHR 0xF0, CHR 0xF1, CHR 0xF2, CHR 0xF3, CHR 0xF4, CHR 0xF5, CHR 0xF6,
        CHR 0xF8, CHR 0xF9, CHR 0xFA, CHR 0xFB, CHR 0xFC, CHR 0xFD, CHR 0xFE]"

definition upper_letters :: string where
  "upper_letters =
     ''ABCDEFGHIJKLMNOPQRSTUVWXYZ''
     @ [CHR 0xC0, CHR 0xC1, CHR 0xC2, CHR 0xC3, CHR 0xC4, CHR 0xC5, CHR 0xC6, CHR 0xC7,
        CHR 0xC8, CHR 0xC9, CHR 0xCA, CHR 0xCB, CHR 0xCC, CHR 0xCD, CHR 0xCE, CHR 0xCF,
        CHR 0xD0, CHR 0xD1, CHR 0xD2, CHR 0xD3, CHR 0xD4, CHR 0xD5, CHR 0xD6,
        CHR 0xD8, CHR 0xD9, CHR 0xDA, CHR 0xDB, CHR 0xDC, CHR 0xDD, CHR 0xDE]"

definition upper_char :: "char \<Rightarrow> string option" where
  "upper_char c =
     (if c = CHR 0xB5 \<or> c = CHR 0xFF then None
      else if c = CHR 0xDF then Some ''SS''
      else (case map_of (zip lower_letters upper_letters) c of
              None \<Rightarrow> Some [c]
            | Some u \<Rightarrow> Some [u]))"

fun toUpperCase :: "string \<Rightarrow> string option" where
  "toUpperCase [] = Some []"
| "toUpperCase (c # cs) =
     (case upper_char c of
        None \<Rightarrow> None
      | Some u \<Rightarrow> (case toUpperCase cs of None \<Rightarrow> None | Some us \<Rightarrow> Some (u @ us)))"

section \<open>Routing keys to tables\<close>

text \<open>
  \<^verbatim>\<open>FAVORITE_KEYS\<close>, \<^verbatim>\<open>TABLES\<close> and \<^verbatim>\<open>getTableForKey\<close>. \<^verbatim>\<open>TableName\<close> is the type of
  the two table names.
\<close>

definition FAVORITE_KEYS :: "string list" where
  "FAVORITE_KEYS =
     [''favoriteSongs'', ''currentFavoriteIndex'', ''favoritePlayMode'', ''favoritePlaybackTime'']"

datatype TableName = playback_store | favorites_store

definition TABLES_playback :: TableName where
  "TABLES_playback = playback_store"

definition TABLES_favorites :: TableName where
  "TABLES_favorites = favorites_store"

definition getTableForKey :: "string \<Rightarrow> TableName" where
  "getTableForKey key =
     (if key \<in> set FAVORITE_KEYS then TABLES_favorites else TABLES_playback)"

text \<open>
  The three handlers group what they do by table in an object with one list per table
  name, both empty at first, and push onto the list of \<^verbatim>\<open>getTableForKey(key)\<close>:
  \<^verbatim>\<open>acc[table].push(key)\<close> in the \<^verbatim>\<open>reduce\<close> of \<^verbatim>\<open>handleGet\<close>,
  \<^verbatim>\<open>groupedStatements[table].push(...)\<close> in the \<^verbatim>\<open>forEach\<close> of \<^verbatim>\<open>handlePost\<close> and
  \<^verbatim>\<open>handleDelete\<close>.
\<close>

definition push :: "TableName \<Rightarrow> 'a \<Rightarrow> (TableName \<Rightarrow> 'a list) \<Rightarrow> (TableName \<Rightarrow> 'a list)" where
  "push table x acc = acc(table := acc table @ [x])"

definition groupKeys :: "string list \<Rightarrow> TableName \<Rightarrow> string list" where
  "groupKeys keys = fold (\<lambda>key acc. push (getTableForKey key) key acc) keys (\<lambda>table. [])"

section \<open>Statements\<close>

text \<open>
  A prepared statement of the D1 client with the parameters that \<^verbatim>\<open>bind\<close> returned
  for it: the \<^verbatim>\<open>INSERT ... ON CONFLICT(user_id, key) DO UPDATE\<close> of \<^verbatim>\<open>handlePost\<close>
  (user id, key, value), the \<^verbatim>\<open>DELETE\<close> of \<^verbatim>\<open>handleDelete\<close> (user id, key), and the
  two queries of \<^verbatim>\<open>handleGet\<close>, \<^verbatim>\<open>SELECT key, value ... WHERE user_id = ? AND key IN
  (?, ..., ?)\<close> (user id, keys) and \<^verbatim>\<open>SELECT key, value ... WHERE user_id = ?\<close> (user
  id), each on one of the two tables.
\<close>

datatype statement =
    Upsert TableName json string string
  | Delete TableName json string
  | SelectKeys TableName json "string list"
  | SelectAll TableName json

fun parameters :: "statement \<Rightarrow> json list" where
  "parameters (Upsert table uid k v) = [uid, JStr k, JStr v]"
| "parameters (Delete table uid k) = [uid, JStr k]"
| "parameters (SelectKeys table uid ks) = uid # map JStr ks"
| "parameters (SelectAll table uid) = [uid]"

section \<open>The platform\<close>

text \<open>
  What the handlers call and the repository does not define: the base64 and JSON codecs,
  the conversion of a string to a number that a comparison applies, the digits that
  \<^verbatim>\<open>String(n)\<close> prints for a number above \<open>2^53\<close> in absolute value (the
  shortest that identify it, in exponent form from \<open>10^21\<close> on), the URL parser
  behind \<^verbatim>\<open>Response.redirect\<close>, the two endpoints of the identity provider, and the
  limits of the D1 service on the size of what a statement binds (\<open>D1_refuses\<close>
  holds for a statement that the service refuses for the size of a parameter or of the
  row it makes). A result \<open>None\<close> is a thrown exception (for a codec or
  \<^verbatim>\<open>fetch\<close>), \<^verbatim>\<open>NaN\<close> for \<open>StringToNumber\<close>. Of a fetched response the
  handlers read \<^verbatim>\<open>ok\<close>, \<^verbatim>\<open>json()\<close> and \<^verbatim>\<open>text()\<close>; the last two are \<open>None\<close>
  when the promise rejects.
\<close>

record fetched =
  ok :: bool
  json_of :: "json option"
  text_of :: "string option"

record platform =
  atob :: "string \<Rightarrow> string option"
  btoa :: "string \<Rightarrow> string option"
  JSON_parse :: "string \<Rightarrow> json option"
  JSON_stringify :: "json \<Rightarrow> string"
  StringToNumber :: "string \<Rightarrow> int option"
  NumberToString :: "int \<Rightarrow> string"
  URL_parse :: "string \<Rightarrow> string option"
  fetch_token :: "string \<Rightarrow> string \<Rightarrow> string \<Rightarrow> string \<Rightarrow> fetched option"
  fetch_userinfo :: "string \<Rightarrow> fetched option"
  D1_refuses :: "statement \<Rightarrow> bool"

text \<open>
  \<^verbatim>\<open>String(v)\<close> and template interpolation. A number up to \<open>2^53\<close> in absolute
  value prints its decimal digits. An array prints its elements joined by commas, a \<^verbatim>\<open>null\<close>
  element as the empty string. An object is converted by the \<^verbatim>\<open>toString\<close> it has: the
  inherited one answers \<^verbatim>\<open>[object Object]\<close>; an own property \<^verbatim>\<open>toString\<close> of a parsed
  object is not a function, \<^verbatim>\<open>valueOf\<close> (own or inherited) yields no primitive either,
  and the conversion throws a \<^verbatim>\<open>TypeError\<close>. So does the conversion of an array that
  holds such an object.
\<close>

fun ToString :: "platform \<Rightarrow> json \<Rightarrow> error + string" where
  "ToString p JNull = Inr ''null''"
| "ToString p (JBool b) = Inr (if b then ''true'' else ''false'')"
| "ToString p (JNum n) = Inr (if \<bar>n\<bar> \<le> 2 ^ 53 then show_int n else NumberToString p n)"
| "ToString p (JStr s) = Inr s"
| "ToString p (JArr xs) =
     (case collect (map (\<lambda>x. if x = JNull then Inr [] else ToString p x) xs) of
        Inl e \<Rightarrow> Inl e
      | Inr parts \<Rightarrow> Inr (join '','' parts))"
| "ToString p (JObj ps) =
     (if map_of ps ''toString'' \<noteq> None then Inl TypeError else Inr ''[object Object]'')"

text \<open>
  \<^verbatim>\<open>ToNumber\<close> of a value, as the comparisons \<^verbatim>\<open>exp > Date.now()\<close> and
  \<^verbatim>\<open>exp < Date.now()\<close> apply it to their left operand; \<open>None\<close> is \<^verbatim>\<open>NaN\<close>, and a
  comparison with \<^verbatim>\<open>NaN\<close> is false. An array is compared through its string, an object
  through \<^verbatim>\<open>[object Object]\<close>, which is not a number; where the conversion to a
  string throws, so does the comparison.
\<close>

fun ToNumber :: "platform \<Rightarrow> json \<Rightarrow> error + int option" where
  "ToNumber p JNull = Inr (Some 0)"
| "ToNumber p (JBool b) = Inr (Some (if b then 1 else 0))"
| "ToNumber p (JNum n) = Inr (Some n)"
| "ToNumber p (JStr s) = Inr (StringToNumber p s)"
| "ToNumber p (JArr xs) =
     (case ToString p (JArr xs) of Inl e \<Rightarrow> Inl e | Inr s \<Rightarrow> Inr (StringToNumber p s))"
| "ToNumber p (JObj ps) =
     (case ToString p (JObj ps) of Inl e \<Rightarrow> Inl e | Inr s \<Rightarrow> Inr None)"

definition js_gt :: "platform \<Rightarrow> json option \<Rightarrow> int \<Rightarrow> error + bool" where
  "js_gt p v n =
     (case v of
        None \<Rightarrow> Inr False
      | Some x \<Rightarrow> (case ToNumber p x of
                     Inl e \<Rightarrow> Inl e
                   | Inr None \<Rightarrow> Inr False
                   | Inr (Some m) \<Rightarrow> Inr (m > n)))"

definition js_lt :: "platform \<Rightarrow> json option \<Rightarrow> int \<Rightarrow> error + bool" where
  "js_lt p v n =
     (case v of
        None \<Rightarrow> Inr False
      | Some x \<Rightarrow> (case ToNumber p x of
                     Inl e \<Rightarrow> Inl e
                   | Inr None \<Rightarrow> Inr False
                   | Inr (Some m) \<Rightarrow> Inr (m < n)))"

section \<open>Requests and responses\<close>

text \<open>
  A request as the handlers read it: the method, the protocol, origin and query of
  \<^verbatim>\<open>new URL(request.url)\<close> (\<^verbatim>\<open>searchParams.get\<close> returns the first value of a name),
  the \<^verbatim>\<open>Cookie\<close> header, and the result of \<^verbatim>\<open>request.json()\<close> (\<open>None\<close> when it
  rejects). A response body is the value handed to \<^verbatim>\<open>JSON.stringify\<close>.
\<close>

record request =
  req_method :: string
  url_protocol :: string
  url_origin :: string
  searchParams :: "(string \<times> string) list"
  Cookie :: "string option"
  req_json :: "json option"

record response =
  status :: nat
  headers :: "(string \<times> string) list"
  body :: "json option"

text \<open>An object literal: a property whose value is \<^verbatim>\<open>undefined\<close> is not serialised.\<close>

definition obj :: "(string \<times> json option) list \<Rightarrow> json" where
  "obj ps = JObj (List.map_filter (\<lambda>(k, v). map_option (Pair k) v) ps)"

definition str_truthy :: "string option \<Rightarrow> bool" where
  "str_truthy s = (case s of None \<Rightarrow> False | Some x \<Rightarrow> x \<noteq> [])"

text \<open>
  The cookie parser that \<^verbatim>\<open>onRequestPost\<close> and \<^verbatim>\<open>getUserIdFromRequest\<close> both contain:
  split the header at \<^verbatim>\<open>;\<close>, skip a part without \<^verbatim>\<open>=\<close>, trim the name and the value
  around the first \<^verbatim>\<open>=\<close>, and record the value under a non-empty name (a later part
  overwrites an earlier one).
\<close>

definition parseCookies :: "string \<Rightarrow> (string \<rightharpoonup> string)" where
  "parseCookies cookieHeader =
     fold (\<lambda>part cookies.
             if CHR ''='' \<notin> set part then cookies
             else let key = trim (takeWhile (\<lambda>c. c \<noteq> CHR ''='') part);
                      val = trim (tl (dropWhile (\<lambda>c. c \<noteq> CHR ''='') part))
                  in if key \<noteq> [] then cookies(key \<mapsto> val) else cookies)
          (split CHR '';'' cookieHeader) Map.empty"

definition cookieHeader_of :: "request \<Rightarrow> string" where
  "cookieHeader_of request = (case Cookie request of None \<Rightarrow> [] | Some h \<Rightarrow> h)"

definition google_auth :: "request \<Rightarrow> string option" where
  "google_auth request = parseCookies (cookieHeader_of request) ''google_auth''"

text \<open>\<^verbatim>\<open>JSON.parse(atob(token))\<close>; \<open>None\<close> when either throws.\<close>

definition decodeSession :: "platform \<Rightarrow> string \<Rightarrow> json option" where
  "decodeSession p token = (case atob p token of None \<Rightarrow> None | Some t \<Rightarrow> JSON_parse p t)"

section \<open>The session check of the sync handler\<close>

text \<open>
  \<^verbatim>\<open>getUserIdFromRequest\<close>. Everything from \<^verbatim>\<open>JSON.parse\<close> to the test
  \<^verbatim>\<open>sessionData.exp && sessionData.exp > Date.now() && sessionData.userId\<close> is inside
  one \<^verbatim>\<open>try\<close>, whose \<^verbatim>\<open>catch\<close> falls through to \<^verbatim>\<open>return null\<close>.
\<close>

definition getUserIdFromRequest :: "platform \<Rightarrow> int \<Rightarrow> request \<Rightarrow> json option" where
  "getUserIdFromRequest p now request =
     (case google_auth request of
        None \<Rightarrow> None
      | Some googleAuth \<Rightarrow>
          if googleAuth = [] then None
          else (case decodeSession p googleAuth of
                  None \<Rightarrow> None
                | Some sessionData \<Rightarrow>
                    (case get_prop sessionData ''exp'' of
                       Inl e \<Rightarrow> None
                     | Inr exp \<Rightarrow>
                         if \<not> truthy_opt exp then None
                         else (case js_gt p exp now of
                                 Inl e \<Rightarrow> None
                               | Inr later \<Rightarrow>
                                   if \<not> later then None
                                   else (case get_prop sessionData ''userId'' of
                                           Inl e \<Rightarrow> None
                                         | Inr userId \<Rightarrow>
                                             if truthy_opt userId then userId else None)))))"

section \<open>WhoAmI and logout\<close>

definition AUTH_HEADERS :: "(string \<times> string) list" where
  "AUTH_HEADERS = [(''Content-Type'', ''application/json'')]"

definition not_authenticated :: response where
  "not_authenticated =
     \<lparr>status = 200, headers = AUTH_HEADERS, body = Some (JObj [(''authenticated'', JBool False)])\<rparr>"

text \<open>
  \<^verbatim>\<open>onRequestPost\<close>. The \<^verbatim>\<open>try\<close> around the decoding, the test
  \<^verbatim>\<open>sessionData.exp && sessionData.exp < Date.now()\<close> and the answer ends in a
  \<^verbatim>\<open>catch\<close> that answers \<^verbatim>\<open>authenticated: false\<close>.
\<close>

definition onRequestPost :: "platform \<Rightarrow> int \<Rightarrow> request \<Rightarrow> response" where
  "onRequestPost p now request =
     (if map_of (searchParams request) ''action'' = Some ''logout'' then
        \<lparr>status = 200,
         headers = [(''Content-Type'', ''application/json''),
                    (''Set-Cookie'',
                     join ''; '' ([''google_auth='', ''Max-Age=0'', ''Path=/'', ''SameSite=Lax'']
                                  @ (if url_protocol request = ''https:'' then [''Secure''] else [])))],
         body = Some (JObj [(''success'', JBool True)])\<rparr>
      else
        (case google_auth request of
           None \<Rightarrow> not_authenticated
         | Some sessionToken \<Rightarrow>
             if sessionToken = [] then not_authenticated
             else (case decodeSession p sessionToken of
                     None \<Rightarrow> not_authenticated
                   | Some sessionData \<Rightarrow>
                       (case get_prop sessionData ''exp'' of
                          Inl e \<Rightarrow> not_authenticated
                        | Inr exp \<Rightarrow>
                            (case (if truthy_opt exp then js_lt p exp now else Inr False) of
                               Inl e \<Rightarrow> not_authenticated
                             | Inr expired \<Rightarrow>
                                 if expired then not_authenticated
                                 else (case (get_prop sessionData ''userId'',
                                             get_prop sessionData ''email'',
                                             get_prop sessionData ''name'') of
                                         (Inr userId, Inr email, Inr name) \<Rightarrow>
                                           \<lparr>status = 200, headers = AUTH_HEADERS,
                                            body = Some (JObj [(''authenticated'', JBool True),
                                                               (''user'', obj [(''id'', userId),
                                                                               (''email'', email),
                                                                               (''name'', name)])])\<rparr>
                                       | _ \<Rightarrow> not_authenticated))))))"

section \<open>The store\<close>

text \<open>
  The D1 database as the handlers use it. A row of \<^verbatim>\<open>playback_store\<close> or
  \<^verbatim>\<open>favorites_store\<close> is (\<^verbatim>\<open>user_id\<close>, \<^verbatim>\<open>key\<close>, \<^verbatim>\<open>value\<close>); the column
  \<^verbatim>\<open>updated_at\<close> is written and never read, and is left out. A table that was never
  created is the empty list of rows, so \<^verbatim>\<open>CREATE TABLE IF NOT EXISTS\<close> changes
  nothing in this representation. The user id of a row is the value that \<^verbatim>\<open>bind\<close>
  handed to the database, and the key of a row is a string, so the test
  \<^verbatim>\<open>typeof row.key !== "string"\<close> of \<^verbatim>\<open>handleGet\<close> never skips a row. The database
  compares user ids as they were bound (the conversion of a number to text by the
  \<^verbatim>\<open>TEXT\<close> column is not modelled). The refusals that depend on the request alone are
  part of the model: \<^verbatim>\<open>bind\<close> throws on a value that is neither a primitive nor an
  array of bytes, and the service refuses a statement with more than 100 bound
  parameters and a statement that is too large for it. An outage of the service is not
  part of it. A handler that throws hands back no environment: what a batch that ran
  before the failure left in the store is not described.
\<close>

type_synonym row = "json \<times> string \<times> string option"

record d1 =
  playback_rows :: "row list"
  favorites_rows :: "row list"
  users_rows :: "(string \<times> string \<times> string \<times> json) list"

record env =
  DB :: "d1 option"
  GOOGLE_CLIENT_ID :: "string option"
  GOOGLE_CLIENT_SECRET :: "string option"
  GOOGLE_REDIRECT_URI :: "string option"

definition rows_of :: "TableName \<Rightarrow> d1 \<Rightarrow> row list" where
  "rows_of table db = (case table of playback_store \<Rightarrow> playback_rows db | favorites_store \<Rightarrow> favorites_rows db)"

definition put_rows :: "TableName \<Rightarrow> row list \<Rightarrow> d1 \<Rightarrow> d1" where
  "put_rows table rows db =
     (case table of playback_store \<Rightarrow> db\<lparr>playback_rows := rows\<rparr>
                  | favorites_store \<Rightarrow> db\<lparr>favorites_rows := rows\<rparr>)"

text \<open>
  \<^verbatim>\<open>bind\<close> of the D1 client, on one value: a number, a string and \<^verbatim>\<open>null\<close> are bound
  as they are, a boolean as 1 or 0, an array of numbers from 0 to 255 as the bytes it
  holds. For every other array and every object \<^verbatim>\<open>bind\<close> throws; the message of its
  error prints the value, so the error is the \<^verbatim>\<open>TypeError\<close> of that conversion where
  the conversion throws.
\<close>

definition byte_array :: "json list \<Rightarrow> bool" where
  "byte_array xs = list_all (\<lambda>x. case x of JNum n \<Rightarrow> 0 \<le> n \<and> n < 256 | _ \<Rightarrow> False) xs"

definition not_supported :: "platform \<Rightarrow> json \<Rightarrow> error + json" where
  "not_supported p r = (case ToString p r of Inl e \<Rightarrow> Inl e | Inr printed \<Rightarrow> Inl D1_ERROR)"

definition bind_value :: "platform \<Rightarrow> json \<Rightarrow> error + json" where
  "bind_value p r =
     (case r of
        JNull \<Rightarrow> Inr r
      | JBool b \<Rightarrow> Inr (JNum (if b then 1 else 0))
      | JNum n \<Rightarrow> Inr r
      | JStr s \<Rightarrow> Inr r
      | JArr xs \<Rightarrow> if byte_array xs then Inr r else not_supported p r
      | JObj ps \<Rightarrow> not_supported p r)"

text \<open>
  The service runs a statement that has at most 100 bound parameters and that it does
  not refuse for its size.
\<close>

definition D1_MAX_BOUND_PARAMETERS :: nat where
  "D1_MAX_BOUND_PARAMETERS = 100"

definition runs :: "platform \<Rightarrow> statement \<Rightarrow> bool" where
  "runs p st = (length (parameters st) \<le> D1_MAX_BOUND_PARAMETERS \<and> \<not> D1_refuses p st)"

definition row_is :: "json \<Rightarrow> string \<Rightarrow> row \<Rightarrow> bool" where
  "row_is uid k r = (fst r = uid \<and> fst (snd r) = k)"

text \<open>
  The effect of \<^verbatim>\<open>INSERT ... ON CONFLICT(user_id, key) DO UPDATE SET value =
  excluded.value\<close> and of \<^verbatim>\<open>DELETE ... WHERE user_id = ?1 AND key = ?2\<close> on the rows of a
  table, and the rows that the two \<^verbatim>\<open>SELECT key, value\<close> queries match.
\<close>

definition upsert_row :: "json \<Rightarrow> string \<Rightarrow> string \<Rightarrow> row list \<Rightarrow> row list" where
  "upsert_row uid k v rows =
     (if filter (row_is uid k) rows = [] then rows @ [(uid, k, Some v)]
      else map (\<lambda>r. if row_is uid k r then (uid, k, Some v) else r) rows)"

definition delete_row :: "json \<Rightarrow> string \<Rightarrow> row list \<Rightarrow> row list" where
  "delete_row uid k rows = filter (\<lambda>r. \<not> row_is uid k r) rows"

definition matching_keys :: "json \<Rightarrow> string list \<Rightarrow> row list \<Rightarrow> (string \<times> string option) list" where
  "matching_keys uid ks rows = map snd (filter (\<lambda>r. fst r = uid \<and> fst (snd r) \<in> set ks) rows)"

definition matching_all :: "json \<Rightarrow> row list \<Rightarrow> (string \<times> string option) list" where
  "matching_all uid rows = map snd (filter (\<lambda>r. fst r = uid) rows)"

text \<open>What a statement that runs does to the store, and the rows it returns.\<close>

fun exec :: "statement \<Rightarrow> d1 \<Rightarrow> d1" where
  "exec (Upsert table uid k v) db = put_rows table (upsert_row uid k v (rows_of table db)) db"
| "exec (Delete table uid k) db = put_rows table (delete_row uid k (rows_of table db)) db"
| "exec (SelectKeys table uid ks) db = db"
| "exec (SelectAll table uid) db = db"

fun returned :: "statement \<Rightarrow> d1 \<Rightarrow> (string \<times> string option) list" where
  "returned (Upsert table uid k v) db = []"
| "returned (Delete table uid k) db = []"
| "returned (SelectKeys table uid ks) db = matching_keys uid ks (rows_of table db)"
| "returned (SelectAll table uid) db = matching_all uid (rows_of table db)"

text \<open>
  \<^verbatim>\<open>statement.all()\<close>, for the two queries, and \<^verbatim>\<open>DB.batch(statements)\<close>, which runs
  its statements in order as one transaction: all of them, or none and an error.
\<close>

definition all_rows :: "platform \<Rightarrow> statement \<Rightarrow> d1 \<Rightarrow> error + (string \<times> string option) list" where
  "all_rows p st db = (if runs p st then Inr (returned st db) else Inl D1_ERROR)"

definition batch :: "platform \<Rightarrow> statement list \<Rightarrow> d1 \<Rightarrow> error + d1" where
  "batch p statements db =
     (if list_all (runs p) statements then Inr (fold exec statements db) else Inl D1_ERROR)"

text \<open>
  The two queries of \<^verbatim>\<open>handleGet\<close>, from \<^verbatim>\<open>prepare\<close> to the rows of \<^verbatim>\<open>all()\<close>:
  \<^verbatim>\<open>bind(userId, ...tableKeys)\<close> binds the user id and one parameter for each key (a
  key is a string), and \<^verbatim>\<open>bind(userId)\<close> the user id alone.
\<close>

definition select_keys ::
  "platform \<Rightarrow> json \<Rightarrow> string list \<Rightarrow> TableName \<Rightarrow> d1 \<Rightarrow> error + (string \<times> string option) list" where
  "select_keys p userId tableKeys table db =
     (case bind_value p userId of
        Inl e \<Rightarrow> Inl e
      | Inr uid \<Rightarrow> all_rows p (SelectKeys table uid tableKeys) db)"

definition select_all ::
  "platform \<Rightarrow> json \<Rightarrow> TableName \<Rightarrow> d1 \<Rightarrow> error + (string \<times> string option) list" where
  "select_all p userId table db =
     (case bind_value p userId of
        Inl e \<Rightarrow> Inl e
      | Inr uid \<Rightarrow> all_rows p (SelectAll table uid) db)"

definition hasD1 :: "env \<Rightarrow> bool" where
  "hasD1 env = (DB env \<noteq> None)"

definition ensureTables :: "d1 \<Rightarrow> d1" where
  "ensureTables db = db"

section \<open>The sync handler\<close>

definition JSON_HEADERS :: "(string \<times> string) list" where
  "JSON_HEADERS =
     [(''Content-Type'', ''application/json''),
      (''Access-Control-Allow-Origin'', ''*''),
      (''Access-Control-Allow-Methods'', ''GET,POST,DELETE,OPTIONS''),
      (''Access-Control-Allow-Headers'', ''Content-Type'')]"

definition jsonResponse :: "json \<Rightarrow> nat \<Rightarrow> response" where
  "jsonResponse b st = \<lparr>status = st, headers = JSON_HEADERS, body = Some b\<rparr>"

text \<open>
  The object \<^verbatim>\<open>data\<close> of \<^verbatim>\<open>handleGet\<close>, created by \<^verbatim>\<open>{}\<close> and filled by
  \<^verbatim>\<open>data[key] = ...\<close> with \<^verbatim>\<open>null\<close> (\<open>None\<close>) or a string. An assignment sets an own
  property, except for the name \<^verbatim>\<open>__proto__\<close> while the object still inherits from
  \<^verbatim>\<open>Object.prototype\<close>: there the inherited setter runs, which for \<^verbatim>\<open>null\<close> removes
  the prototype and for a string does nothing. The own properties are listed in the order
  of their first assignment.
\<close>

record dataobj =
  own :: "(string \<times> json) list"
  proto :: bool

definition empty_data :: dataobj where
  "empty_data = \<lparr>own = [], proto = True\<rparr>"

definition json_of_value :: "string option \<Rightarrow> json" where
  "json_of_value v = (case v of None \<Rightarrow> JNull | Some s \<Rightarrow> JStr s)"

definition data_set :: "string \<Rightarrow> string option \<Rightarrow> dataobj \<Rightarrow> dataobj" where
  "data_set k v d =
     (if k = ''__proto__'' \<and> proto d then (case v of None \<Rightarrow> d\<lparr>proto := False\<rparr> | Some s \<Rightarrow> d)
      else d\<lparr>own := AList.update k (json_of_value v) (own d)\<rparr>)"

definition requestedKeys :: "request \<Rightarrow> string list" where
  "requestedKeys request =
     filter (\<lambda>key. key \<noteq> [])
       (map trim (split CHR '','' (case map_of (searchParams request) ''keys'' of None \<Rightarrow> [] | Some s \<Rightarrow> s)))"

text \<open>
  The rows that \<^verbatim>\<open>handleGet\<close> reads: with keys, one query for each table that has a
  key, \<^verbatim>\<open>playback_store\<close> first; without keys, all rows of the user in both tables. A
  query that throws ends the handler.
\<close>

definition readRows ::
  "platform \<Rightarrow> json \<Rightarrow> string list \<Rightarrow> d1 \<Rightarrow> error + (string \<times> string option) list" where
  "readRows p userId keys db =
     (case collect
             (if keys \<noteq> [] then
                map (\<lambda>table. if groupKeys keys table = [] then Inr []
                              else select_keys p userId (groupKeys keys table) table db)
                    [TABLES_playback, TABLES_favorites]
              else [select_all p userId TABLES_playback db, select_all p userId TABLES_favorites db]) of
        Inl e \<Rightarrow> Inl e
      | Inr results \<Rightarrow> Inr (concat results))"

definition fillData :: "string list \<Rightarrow> (string \<times> string option) list \<Rightarrow> dataobj" where
  "fillData keys rows =
     fold (\<lambda>r d. data_set (fst r) (snd r) d) rows
       (if keys \<noteq> [] then fold (\<lambda>key d. data_set key None d) keys empty_data else empty_data)"

definition readData :: "platform \<Rightarrow> json \<Rightarrow> string list \<Rightarrow> d1 \<Rightarrow> error + dataobj" where
  "readData p userId keys db =
     (case readRows p userId keys db of
        Inl e \<Rightarrow> Inl e
      | Inr rows \<Rightarrow> Inr (fillData keys rows))"

definition handleGet :: "platform \<Rightarrow> int \<Rightarrow> request \<Rightarrow> env \<Rightarrow> error + response \<times> env" where
  "handleGet p now request env =
     (case DB env of
        None \<Rightarrow> Inr (jsonResponse (JObj [(''d1Available'', JBool False), (''data'', JObj [])]) 200, env)
      | Some db \<Rightarrow>
          (case getUserIdFromRequest p now request of
             None \<Rightarrow>
               Inr (jsonResponse (JObj [(''d1Available'', JBool False), (''data'', JObj []),
                                        (''error'', JStr ''Not authenticated'')]) 200, env)
           | Some userId \<Rightarrow>
               if str_truthy (map_of (searchParams request) ''status'') then
                 Inr (jsonResponse (JObj [(''d1Available'', JBool True)]) 200, env)
               else
                 let keys = requestedKeys request;
                     db1 = ensureTables db
                 in (case readData p userId keys db1 of
                       Inl e \<Rightarrow> Inl e
                     | Inr data \<Rightarrow>
                         Inr (jsonResponse (JObj [(''d1Available'', JBool True),
                                                  (''data'', JObj (own data))]) 200,
                              env\<lparr>DB := Some db1\<rparr>))))"

text \<open>
  \<^verbatim>\<open>handlePost\<close>. Its \<^verbatim>\<open>forEach\<close> over the entries does three things for each entry:
  it converts the value (\<^verbatim>\<open>value == null ? "" : String(value)\<close>), it binds the user
  id, the key and the converted value, and it pushes the bound statement onto the list of
  the key's table. The first two can throw, and nothing has been sent to the database
  when they do; the third cannot. So the loop is read as the parameters of all entries
  in order, or the first error (\<open>boundEntries\<close>), followed by the grouping
  (\<open>writeStatements\<close>). Each non-empty list is one batch; the two batches touch
  different tables, and the handler throws when one of them fails.
\<close>

definition storedValue :: "platform \<Rightarrow> json \<Rightarrow> error + string" where
  "storedValue p v = (if v = JNull then Inr [] else ToString p v)"

definition boundEntries ::
  "platform \<Rightarrow> json \<Rightarrow> (string \<times> json) list \<Rightarrow> error + (json \<times> string \<times> string) list" where
  "boundEntries p userId entries =
     collect (map (\<lambda>(key, v).
                     case storedValue p v of
                       Inl e \<Rightarrow> Inl e
                     | Inr s \<Rightarrow> (case bind_value p userId of
                                   Inl e \<Rightarrow> Inl e
                                 | Inr uid \<Rightarrow> Inr (uid, key, s)))
                  entries)"

definition writeStatements :: "(json \<times> string \<times> string) list \<Rightarrow> TableName \<Rightarrow> statement list" where
  "writeStatements bound =
     fold (\<lambda>(uid, key, s) groupedStatements.
             push (getTableForKey key) (Upsert (getTableForKey key) uid key s) groupedStatements)
       bound (\<lambda>table. [])"

definition runBatches ::
  "platform \<Rightarrow> (TableName \<Rightarrow> statement list) \<Rightarrow> d1 \<Rightarrow> error + d1" where
  "runBatches p groupedStatements db =
     fold (\<lambda>table r.
             case r of
               Inl e \<Rightarrow> Inl e
             | Inr d \<Rightarrow> if groupedStatements table \<noteq> [] then batch p (groupedStatements table) d
                        else Inr d)
       [TABLES_playback, TABLES_favorites] (Inr db)"

definition handlePost :: "platform \<Rightarrow> int \<Rightarrow> request \<Rightarrow> env \<Rightarrow> error + response \<times> env" where
  "handlePost p now request env =
     (case DB env of
        None \<Rightarrow> Inr (jsonResponse (JObj [(''d1Available'', JBool False), (''data'', JObj [])]) 200, env)
      | Some db \<Rightarrow>
          (case getUserIdFromRequest p now request of
             None \<Rightarrow>
               Inr (jsonResponse (JObj [(''d1Available'', JBool False), (''data'', JObj []),
                                        (''error'', JStr ''Not authenticated'')]) 200, env)
           | Some userId \<Rightarrow>
               (case get_prop (case req_json request of None \<Rightarrow> JObj [] | Some b \<Rightarrow> b) ''data'' of
                  Inl e \<Rightarrow> Inl e
                | Inr (Some (JObj payload)) \<Rightarrow>
                    let entries = filter (\<lambda>(key, v). key \<noteq> []) payload in
                    if entries = [] then
                      Inr (jsonResponse (JObj [(''d1Available'', JBool True), (''updated'', JNum 0)]) 200, env)
                    else
                      let db1 = ensureTables db in
                      (case boundEntries p userId entries of
                         Inl e \<Rightarrow> Inl e
                       | Inr bound \<Rightarrow>
                           (case runBatches p (writeStatements bound) db1 of
                              Inl e \<Rightarrow> Inl e
                            | Inr db2 \<Rightarrow>
                                Inr (jsonResponse (JObj [(''d1Available'', JBool True),
                                                         (''updated'', JNum (int (length entries)))]) 200,
                                     env\<lparr>DB := Some db2\<rparr>)))
                | Inr other \<Rightarrow> Inr (jsonResponse (JObj [(''error'', JStr ''Invalid payload'')]) 400, env))))"

text \<open>
  \<^verbatim>\<open>handleDelete\<close>: the keys are the non-empty strings of the array \<^verbatim>\<open>body.keys\<close>. Its
  \<^verbatim>\<open>forEach\<close> binds the user id and the key, which can throw, and pushes the bound
  statement; it is read like the loop of \<^verbatim>\<open>handlePost\<close>.
\<close>

definition deleteKeys :: "json option \<Rightarrow> string list" where
  "deleteKeys ks =
     (case ks of
        Some (JArr xs) \<Rightarrow> concat (map (\<lambda>x. case x of JStr s \<Rightarrow> (if s \<noteq> [] then [s] else []) | _ \<Rightarrow> []) xs)
      | _ \<Rightarrow> [])"

definition boundKeys :: "platform \<Rightarrow> json \<Rightarrow> string list \<Rightarrow> error + (json \<times> string) list" where
  "boundKeys p userId keys =
     collect (map (\<lambda>key. case bind_value p userId of
                            Inl e \<Rightarrow> Inl e
                          | Inr uid \<Rightarrow> Inr (uid, key))
                  keys)"

definition deleteStatements :: "(json \<times> string) list \<Rightarrow> TableName \<Rightarrow> statement list" where
  "deleteStatements bound =
     fold (\<lambda>(uid, key) groupedStatements.
             push (getTableForKey key) (Delete (getTableForKey key) uid key) groupedStatements)
       bound (\<lambda>table. [])"

definition handleDelete :: "platform \<Rightarrow> int \<Rightarrow> request \<Rightarrow> env \<Rightarrow> error + response \<times> env" where
  "handleDelete p now request env =
     (case DB env of
        None \<Rightarrow> Inr (jsonResponse (JObj [(''d1Available'', JBool False)]) 200, env)
      | Some db \<Rightarrow>
          (case getUserIdFromRequest p now request of
             None \<Rightarrow>
               Inr (jsonResponse (JObj [(''d1Available'', JBool False),
                                        (''error'', JStr ''Not authenticated'')]) 200, env)
           | Some userId \<Rightarrow>
               (case get_prop (case req_json request of None \<Rightarrow> JObj [] | Some b \<Rightarrow> b) ''keys'' of
                  Inl e \<Rightarrow> Inl e
                | Inr ks \<Rightarrow>
                    let keys = deleteKeys ks in
                    if keys = [] then
                      Inr (jsonResponse (JObj [(''d1Available'', JBool True), (''deleted'', JNum 0)]) 200, env)
                    else
                      let db1 = ensureTables db in
                      (case boundKeys p userId keys of
                         Inl e \<Rightarrow> Inl e
                       | Inr bound \<Rightarrow>
                           (case runBatches p (deleteStatements bound) db1 of
                              Inl e \<Rightarrow> Inl e
                            | Inr db2 \<Rightarrow>
                                Inr (jsonResponse (JObj [(''d1Available'', JBool True),
                                                         (''deleted'', JNum (int (length keys)))]) 200,
                                     env\<lparr>DB := Some db2\<rparr>))))))"

text \<open>
  \<^verbatim>\<open>onRequest\<close> compares \<^verbatim>\<open>(request.method || "GET").toUpperCase()\<close> with four names
  of ASCII letters; a method that \<^verbatim>\<open>toUpperCase\<close> maps out of the code units below 256
  is none of them.
\<close>

definition onRequest :: "platform \<Rightarrow> int \<Rightarrow> request \<Rightarrow> env \<Rightarrow> error + response \<times> env" where
  "onRequest p now request env =
     (let m = toUpperCase (if req_method request = [] then ''GET'' else req_method request) in
      if m = Some ''OPTIONS'' then Inr (\<lparr>status = 204, headers = JSON_HEADERS, body = None\<rparr>, env)
      else if m = Some ''GET'' then handleGet p now request env
      else if m = Some ''POST'' then handlePost p now request env
      else if m = Some ''DELETE'' then handleDelete p now request env
      else Inr (jsonResponse (JObj [(''error'', JStr ''Method not allowed'')]) 405, env))"

section \<open>The OAuth callback\<close>

definition MAX_AGE_SECONDS :: int where
  "MAX_AGE_SECONDS = 30 * 24 * 60 * 60"

record userinfo =
  ui_id :: "json option"
  ui_email :: "json option"
  ui_name :: "json option"
  ui_picture :: "json option"

text \<open>
  \<^verbatim>\<open>getGoogleUserInfo\<close>: the whole body is inside a \<^verbatim>\<open>try\<close> whose \<^verbatim>\<open>catch\<close>
  returns \<^verbatim>\<open>null\<close>, the interpolation of the access token into the header included.
\<close>

definition getGoogleUserInfo :: "platform \<Rightarrow> json \<Rightarrow> userinfo option" where
  "getGoogleUserInfo p accessToken =
     (case ToString p accessToken of
        Inl e \<Rightarrow> None
      | Inr token \<Rightarrow>
          (case fetch_userinfo p (''Bearer '' @ token) of
             None \<Rightarrow> None
           | Some response \<Rightarrow>
               if \<not> ok response then None
               else (case json_of response of
                       None \<Rightarrow> None
                     | Some data \<Rightarrow>
                         (case (get_prop data ''id'', get_prop data ''email'',
                                get_prop data ''name'', get_prop data ''picture'') of
                            (Inr i, Inr e, Inr n, Inr pic) \<Rightarrow>
                              Some \<lparr>ui_id = i, ui_email = e, ui_name = n, ui_picture = pic\<rparr>
                          | _ \<Rightarrow> None))))"

text \<open>
  The upsert into \<^verbatim>\<open>users\<close>, inside its own \<^verbatim>\<open>try\<close>: a failure is logged and the login
  goes on. The model runs the statement when id, email and name are strings and counts
  every other binding as a failed statement, which leaves the table as it was. The
  columns \<^verbatim>\<open>created_at\<close> and \<^verbatim>\<open>last_login\<close> are left out.
\<close>

definition upsertUser :: "userinfo \<Rightarrow> d1 \<Rightarrow> d1" where
  "upsertUser userInfo db =
     (case (ui_id userInfo, ui_email userInfo, ui_name userInfo) of
        (Some (JStr i), Some (JStr e), Some (JStr n)) \<Rightarrow>
          db\<lparr>users_rows :=
               AList.update i
                 (e, n, (case ui_picture userInfo of
                           None \<Rightarrow> JNull
                         | Some pic \<Rightarrow> if truthy pic then pic else JNull))
                 (users_rows db)\<rparr>
      | _ \<Rightarrow> db)"

definition authError :: "string \<Rightarrow> nat \<Rightarrow> response" where
  "authError message st =
     \<lparr>status = st, headers = AUTH_HEADERS, body = Some (JObj [(''error'', JStr message)])\<rparr>"

definition or_else :: "string option \<Rightarrow> string \<Rightarrow> string" where
  "or_else s d = (case s of None \<Rightarrow> d | Some x \<Rightarrow> if x = [] then d else x)"

text \<open>The session token and the cookie built from \<^verbatim>\<open>cookieSegments\<close>.\<close>

definition sessionPayload :: "userinfo \<Rightarrow> int \<Rightarrow> json" where
  "sessionPayload userInfo now =
     obj [(''userId'', ui_id userInfo), (''email'', ui_email userInfo), (''name'', ui_name userInfo),
          (''exp'', Some (JNum (now + MAX_AGE_SECONDS * 1000)))]"

definition sessionCookie :: "string \<Rightarrow> string \<Rightarrow> string" where
  "sessionCookie sessionToken protocol =
     join ''; ''
       ([''google_auth='' @ sessionToken, ''Max-Age='' @ show_int MAX_AGE_SECONDS,
         ''Path=/'', ''SameSite=Lax'', ''HttpOnly'']
        @ (if protocol = ''https:'' then [''Secure''] else []))"

text \<open>
  \<^verbatim>\<open>Response.redirect(url, status)\<close> of the Fetch API: a \<^verbatim>\<open>TypeError\<close> when the URL does
  not parse, a \<^verbatim>\<open>RangeError\<close> when the status is not a redirect status, and otherwise a
  response with that status, an empty body and the one header \<^verbatim>\<open>Location\<close>. The method
  has these two parameters only (\<^verbatim>\<open>static Response redirect(USVString url, optional
  unsigned short status = 302)\<close> in the Fetch standard), and the headers of the response
  it returns cannot be changed. The call in \<^verbatim>\<open>onRequestGet\<close> passes a third argument,
  \<^verbatim>\<open>{ headers: { "Set-Cookie": ... } }\<close>, kept here as \<open>init\<close>; it is not read.
\<close>

definition Response_redirect ::
  "platform \<Rightarrow> string \<Rightarrow> nat \<Rightarrow> (string \<times> string) list \<Rightarrow> error + response" where
  "Response_redirect p url st init =
     (case URL_parse p url of
        None \<Rightarrow> Inl TypeError
      | Some location \<Rightarrow>
          if st \<notin> set [301, 302, 303, 307, 308] then Inl RangeError
          else Inr \<lparr>status = st, headers = [(''Location'', location)], body = None\<rparr>)"

text \<open>
  \<^verbatim>\<open>onRequestGet\<close> in three parts: the checks before the \<^verbatim>\<open>try\<close> block, the block up
  to the stored profile (\<open>exchangeCode\<close>), and the rest of the block from
  \<^verbatim>\<open>// Create session token\<close> on (\<open>issueSession\<close>). Whatever the block throws is caught
  and answered with status 500; what it stored before stays stored.
\<close>

definition issueSession :: "platform \<Rightarrow> int \<Rightarrow> request \<Rightarrow> env \<Rightarrow> userinfo \<Rightarrow> response \<times> env" where
  "issueSession p now request env1 userInfo =
     (case btoa p (JSON_stringify p (sessionPayload userInfo now)) of
        None \<Rightarrow> (authError ''Authentication failed'' 500, env1)
      | Some sessionToken \<Rightarrow>
          (case Response_redirect p (or_else (map_of (searchParams request) ''state'') ''/'') 302
                  [(''Set-Cookie'', sessionCookie sessionToken (url_protocol request))] of
             Inl e \<Rightarrow> (authError ''Authentication failed'' 500, env1)
           | Inr redirect \<Rightarrow> (redirect, env1)))"

definition exchangeCode :: "platform \<Rightarrow> int \<Rightarrow> request \<Rightarrow> env \<Rightarrow> string \<Rightarrow> response \<times> env" where
  "exchangeCode p now request env REDIRECT_URI =
     (case fetch_token p (or_else (map_of (searchParams request) ''code'') [])
             (or_else (GOOGLE_CLIENT_ID env) []) (or_else (GOOGLE_CLIENT_SECRET env) [])
             REDIRECT_URI of
        None \<Rightarrow> (authError ''Authentication failed'' 500, env)
      | Some tokenResponse \<Rightarrow>
          if \<not> ok tokenResponse then
            (case text_of tokenResponse of
               None \<Rightarrow> (authError ''Authentication failed'' 500, env)
             | Some errorText \<Rightarrow> (authError ''Failed to exchange code for token'' 400, env))
          else
            (case json_of tokenResponse of
               None \<Rightarrow> (authError ''Authentication failed'' 500, env)
             | Some tokenData \<Rightarrow>
                 (case get_prop tokenData ''access_token'' of
                    Inl e \<Rightarrow> (authError ''Authentication failed'' 500, env)
                  | Inr None \<Rightarrow> (authError ''No access token received'' 400, env)
                  | Inr (Some accessToken) \<Rightarrow>
                      if \<not> truthy accessToken then (authError ''No access token received'' 400, env)
                      else
                        (case getGoogleUserInfo p accessToken of
                           None \<Rightarrow> (authError ''Failed to get user info'' 400, env)
                         | Some userInfo \<Rightarrow>
                             issueSession p now request
                               (case DB env of
                                  None \<Rightarrow> env
                                | Some db \<Rightarrow> env\<lparr>DB := Some (upsertUser userInfo db)\<rparr>)
                               userInfo))))"

definition onRequestGet :: "platform \<Rightarrow> int \<Rightarrow> request \<Rightarrow> env \<Rightarrow> response \<times> env" where
  "onRequestGet p now request env =
     (let REDIRECT_URI = or_else (GOOGLE_REDIRECT_URI env) (url_origin request @ ''/api/google-auth'')
      in
      if map_of (searchParams request) ''action'' = Some ''config'' then
        (\<lparr>status = 200, headers = AUTH_HEADERS,
          body = Some (JObj [(''clientId'', if str_truthy (GOOGLE_CLIENT_ID env)
                                            then JStr (or_else (GOOGLE_CLIENT_ID env) []) else JNull),
                             (''redirectUri'', JStr REDIRECT_URI)])\<rparr>, env)
      else if \<not> str_truthy (map_of (searchParams request) ''code'') then
        (authError ''Missing authorization code'' 400, env)
      else if \<not> str_truthy (GOOGLE_CLIENT_ID env) \<or> \<not> str_truthy (GOOGLE_CLIENT_SECRET env) then
        (authError ''Google OAuth not configured'' 500, env)
      else exchangeCode p now request env REDIRECT_URI)"

section \<open>A concrete platform and concrete requests\<close>

text \<open>
  The platform restricted to the few strings the examples below use: the base64 codec
  and the JSON codec on eight session tokens, an identity provider that knows one
  authorization code and one access token, a URL parser that accepts absolute
  \<^verbatim>\<open>https\<close> URLs already in normal form, and a database service that refuses a
  statement with a string of more than 2000000 characters. No string of the examples is
  compared as a number.
\<close>

definition session_texts :: "(string \<times> string \<times> json) list" where
  \<open>session_texts =
     [(''eyJ1c2VySWQiOiJ1MSIsImV4cCI6MjAwMH0='', ''{"userId":"u1","exp":2000}'',
        JObj [(''userId'', JStr ''u1''), (''exp'', JNum 2000)]),
      (''eyJ1c2VySWQiOiJ1MSIsImV4cCI6NTAwfQ=='', ''{"userId":"u1","exp":500}'',
        JObj [(''userId'', JStr ''u1''), (''exp'', JNum 500)]),
      (''eyJ1c2VySWQiOiJ1MSIsImV4cCI6MH0='', ''{"userId":"u1","exp":0}'',
        JObj [(''userId'', JStr ''u1''), (''exp'', JNum 0)]),
      (''eyJ1c2VySWQiOiJ1MSJ9'', ''{"userId":"u1"}'',
        JObj [(''userId'', JStr ''u1'')]),
      (''eyJleHAiOjIwMDB9'', ''{"exp":2000}'',
        JObj [(''exp'', JNum 2000)]),
      (''eyJ1c2VySWQiOiJ1MSIsImV4cCI6eyJ0b1N0cmluZyI6MX19'', ''{"userId":"u1","exp":{"toString":1}}'',
        JObj [(''userId'', JStr ''u1''), (''exp'', JObj [(''toString'', JNum 1)])]),
      (''eyJ1c2VySWQiOnt9LCJleHAiOjIwMDB9'', ''{"userId":{},"exp":2000}'',
        JObj [(''userId'', JObj []), (''exp'', JNum 2000)]),
      (''eyJ1c2VySWQiOiJ1MSIsImVtYWlsIjoiYW5uQGV4YW1wbGUuY29tIiwibmFtZSI6IkFubiIsImV4cCI6MjU5MjAwMTAwMH0='',
        ''{"userId":"u1","email":"ann@example.com","name":"Ann","exp":2592001000}'',
        JObj [(''userId'', JStr ''u1''), (''email'', JStr ''ann@example.com''),
              (''name'', JStr ''Ann''), (''exp'', JNum 2592001000)])]\<close>

definition demo :: platform where
  "demo =
     \<lparr>atob = map_of (map (\<lambda>(b, t, v). (b, t)) session_texts),
      btoa = map_of (map (\<lambda>(b, t, v). (t, b)) session_texts),
      JSON_parse = map_of (map (\<lambda>(b, t, v). (t, v)) session_texts),
      JSON_stringify = (\<lambda>v. case map_of (map (\<lambda>(b, t, v). (v, t)) session_texts) v of
                               None \<Rightarrow> ''null'' | Some t \<Rightarrow> t),
      StringToNumber = (\<lambda>s. None),
      NumberToString = show_int,
      URL_parse = (\<lambda>u. if take 8 u = ''https://'' then Some u else None),
      fetch_token = (\<lambda>code client_id client_secret redirect_uri.
                       if code = ''code-1''
                       then Some \<lparr>ok = True, json_of = Some (JObj [(''access_token'', JStr ''token-1'')]),
                                  text_of = None\<rparr>
                       else Some \<lparr>ok = False, json_of = None, text_of = Some ''invalid_grant''\<rparr>),
      fetch_userinfo = (\<lambda>authorization.
                          if authorization = ''Bearer token-1''
                          then Some \<lparr>ok = True,
                                     json_of = Some (JObj [(''id'', JStr ''u1''),
                                                           (''email'', JStr ''ann@example.com''),
                                                           (''name'', JStr ''Ann'')]),
                                     text_of = None\<rparr>
                          else Some \<lparr>ok = False, json_of = None, text_of = Some []\<rparr>),
      D1_refuses = (\<lambda>st. list_ex (\<lambda>v. case v of JStr s \<Rightarrow> 2000000 < length s | _ \<Rightarrow> False)
                                  (parameters st))\<rparr>"

text \<open>
  Session tokens: expiring at 2000, at 500, at 0, without expiry, without user id, with
  an object that has a property \<^verbatim>\<open>toString\<close> for expiry, with an object for user id.
\<close>

definition token_2000 :: string where
  "token_2000 = ''eyJ1c2VySWQiOiJ1MSIsImV4cCI6MjAwMH0=''"

definition token_500 :: string where
  "token_500 = ''eyJ1c2VySWQiOiJ1MSIsImV4cCI6NTAwfQ==''"

definition token_0 :: string where
  "token_0 = ''eyJ1c2VySWQiOiJ1MSIsImV4cCI6MH0=''"

definition token_no_exp :: string where
  "token_no_exp = ''eyJ1c2VySWQiOiJ1MSJ9''"

definition token_no_user :: string where
  "token_no_user = ''eyJleHAiOjIwMDB9''"

definition token_object_exp :: string where
  "token_object_exp = ''eyJ1c2VySWQiOiJ1MSIsImV4cCI6eyJ0b1N0cmluZyI6MX19''"

definition token_object_user :: string where
  "token_object_user = ''eyJ1c2VySWQiOnt9LCJleHAiOjIwMDB9''"

definition sync_request :: "string \<Rightarrow> string option \<Rightarrow> (string \<times> string) list \<Rightarrow> json option \<Rightarrow> request" where
  "sync_request m cookie query b =
     \<lparr>req_method = m, url_protocol = ''https:'', url_origin = ''https://app.example'',
      searchParams = query, Cookie = cookie, req_json = b\<rparr>"

definition with_token :: "string \<Rightarrow> string option" where
  "with_token token = Some (''theme=dark; google_auth='' @ token)"

definition empty_db :: d1 where
  "empty_db = \<lparr>playback_rows = [], favorites_rows = [], users_rows = []\<rparr>"

definition demo_env :: "d1 option \<Rightarrow> env" where
  "demo_env db =
     \<lparr>DB = db, GOOGLE_CLIENT_ID = Some ''client-1'', GOOGLE_CLIENT_SECRET = Some ''secret-1'',
      GOOGLE_REDIRECT_URI = None\<rparr>"

section \<open>Reading a response\<close>

text \<open>The value of a top-level field of a JSON response body, if the body has it.\<close>

definition body_field :: "response \<Rightarrow> string \<Rightarrow> json option" where
  "body_field r k = (case body r of Some (JObj ps) \<Rightarrow> map_of ps k | _ \<Rightarrow> None)"

text \<open>The response of a handler that may throw; \<open>None\<close> when it threw.\<close>

definition response_of :: "error + response \<times> env \<Rightarrow> response option" where
  "response_of r = (case r of Inl e \<Rightarrow> None | Inr (resp, env') \<Rightarrow> Some resp)"

text \<open>
  How a response shows that the session was accepted: WhoAmI answers
  \<^verbatim>\<open>authenticated: true\<close>, and a sync operation does not answer with the error
  \<^verbatim>\<open>Not authenticated\<close>.
\<close>

definition authenticated :: "response \<Rightarrow> bool" where
  "authenticated r = (body_field r ''authenticated'' = Some (JBool True))"

definition refused :: "response option \<Rightarrow> bool" where
  "refused r = (case r of None \<Rightarrow> False
                | Some x \<Rightarrow> body_field x ''error'' = Some (JStr ''Not authenticated''))"

text \<open>
  The validity of a session in the words of the specification: the cookie decodes, and
  its expiry is greater than the current time.
\<close>

definition session_valid_spec :: "platform \<Rightarrow> int \<Rightarrow> request \<Rightarrow> bool" where
  "session_valid_spec p now request =
     (case google_auth request of
        None \<Rightarrow> False
      | Some token \<Rightarrow>
          (case decodeSession p token of
             None \<Rightarrow> False
           | Some sessionData \<Rightarrow>
               (case get_prop sessionData ''exp'' of
                  Inl e \<Rightarrow> False
                | Inr exp \<Rightarrow> js_gt p exp now = Inr True)))"

text \<open>
  The method of a request. A \<^verbatim>\<open>Request\<close> of the Fetch API holds a method that is a
  non-empty token of ASCII characters, and it holds \<^verbatim>\<open>DELETE\<close>, \<^verbatim>\<open>GET\<close>,
  \<^verbatim>\<open>HEAD\<close>, \<^verbatim>\<open>OPTIONS\<close>, \<^verbatim>\<open>POST\<close> and \<^verbatim>\<open>PUT\<close> in upper case only: the
  constructor refuses a method that is not a token and puts a method that matches one of
  these six names without regard to case into upper case ("normalize a method" in the
  Fetch standard).
\<close>

definition byte_uppercase :: "string \<Rightarrow> string" where
  "byte_uppercase s =
     map (\<lambda>c. case map_of (zip ''abcdefghijklmnopqrstuvwxyz'' ''ABCDEFGHIJKLMNOPQRSTUVWXYZ'') c of
                 None \<Rightarrow> c | Some u \<Rightarrow> u) s"

definition normalize_method :: "string \<Rightarrow> string" where
  "normalize_method m =
     (if byte_uppercase m \<in> set [''DELETE'', ''GET'', ''HEAD'', ''OPTIONS'', ''POST'', ''PUT'']
      then byte_uppercase m else m)"

definition fetch_method :: "string \<Rightarrow> bool" where
  "fetch_method m = (m \<noteq> [] \<and> list_all (\<lambda>c. \<not> digit7 c) m \<and> normalize_method m = m)"

section \<open>What the store holds, and two operations in a row\<close>







text \<open>
  A write (or a delete) at time \<open>now\<close> followed by a read at time \<open>now'\<close> on the
  environment the first request left: the response of the read, \<open>None\<close> when one of
  the two handlers threw.
\<close>

definition write_then_read ::
  "platform \<Rightarrow> int \<Rightarrow> request \<Rightarrow> int \<Rightarrow> request \<Rightarrow> env \<Rightarrow> response option" where
  "write_then_read p now w now' r env =
     (case handlePost p now w env of
        Inl e \<Rightarrow> None
      | Inr (resp, env1) \<Rightarrow> response_of (handleGet p now' r env1))"


section \<open>The concrete requests evaluated\<close>

lemma sync_request_sel [simp]:
  "req_method (sync_request m c q b) = m"
  "url_protocol (sync_request m c q b) = ''https:''"
  "searchParams (sync_request m c q b) = q"
  "Cookie (sync_request m c q b) = c"
  "req_json (sync_request m c q b) = b"
  by (simp_all add: sync_request_def)

lemma demo_env_sel [simp]:
  "DB (demo_env d) = d"
  by (simp add: demo_env_def)

lemma google_auth_none: "google_auth (sync_request m None q b) = None"
  by (simp add: google_auth_def cookieHeader_of_def sync_request_def parseCookies_def)

lemma google_auth_with_token_2000:
  "google_auth (sync_request m (with_token token_2000) q b) = Some token_2000"
  by (simp add: google_auth_def cookieHeader_of_def sync_request_def parseCookies_def
      with_token_def token_2000_def trim_def isWhiteSpace_def)

lemma decode_2000:
  "decodeSession demo token_2000 = Some (JObj [(''userId'', JStr ''u1''), (''exp'', JNum 2000)])"
  by (simp add: decodeSession_def demo_def session_texts_def token_2000_def)

lemma user_2000:
  "getUserIdFromRequest demo 1000 (sync_request m (with_token token_2000) q b) = Some (JStr ''u1'')"
proof -
  have "token_2000 \<noteq> []" by (simp add: token_2000_def)
  then show ?thesis
    by (simp add: getUserIdFromRequest_def google_auth_with_token_2000 decode_2000
         truthy_opt_def js_gt_def)
qed

lemma google_auth_with_token_500:
  "google_auth (sync_request m (with_token token_500) q b) = Some token_500"
  by (simp add: google_auth_def cookieHeader_of_def parseCookies_def
      with_token_def token_500_def trim_def isWhiteSpace_def)

lemma google_auth_with_token_0:
  "google_auth (sync_request m (with_token token_0) q b) = Some token_0"
  by (simp add: google_auth_def cookieHeader_of_def parseCookies_def
      with_token_def token_0_def trim_def isWhiteSpace_def)

lemma google_auth_with_token_no_exp:
  "google_auth (sync_request m (with_token token_no_exp) q b) = Some token_no_exp"
  by (simp add: google_auth_def cookieHeader_of_def parseCookies_def
      with_token_def token_no_exp_def trim_def isWhiteSpace_def)

lemma google_auth_with_token_no_user:
  "google_auth (sync_request m (with_token token_no_user) q b) = Some token_no_user"
  by (simp add: google_auth_def cookieHeader_of_def parseCookies_def
      with_token_def token_no_user_def trim_def isWhiteSpace_def)

lemma decode_500:
  "decodeSession demo token_500 = Some (JObj [(''userId'', JStr ''u1''), (''exp'', JNum 500)])"
  by (simp add: decodeSession_def demo_def session_texts_def token_500_def)

lemma decode_0:
  "decodeSession demo token_0 = Some (JObj [(''userId'', JStr ''u1''), (''exp'', JNum 0)])"
  by (simp add: decodeSession_def demo_def session_texts_def token_0_def)

lemma decode_no_exp:
  "decodeSession demo token_no_exp = Some (JObj [(''userId'', JStr ''u1'')])"
  by (simp add: decodeSession_def demo_def session_texts_def token_no_exp_def)

lemma decode_no_user:
  "decodeSession demo token_no_user = Some (JObj [(''exp'', JNum 2000)])"
  by (simp add: decodeSession_def demo_def session_texts_def token_no_user_def)

lemma google_auth_with_token_object_exp:
  "google_auth (sync_request m (with_token token_object_exp) q b) = Some token_object_exp"
  by (simp add: google_auth_def cookieHeader_of_def parseCookies_def
      with_token_def token_object_exp_def trim_def isWhiteSpace_def)


lemma decode_object_exp:
  "decodeSession demo token_object_exp
     = Some (JObj [(''userId'', JStr ''u1''), (''exp'', JObj [(''toString'', JNum 1)])])"
  by (simp add: decodeSession_def demo_def session_texts_def token_object_exp_def)


lemma tokens_not_empty:
  "token_2000 \<noteq> []" "token_500 \<noteq> []" "token_0 \<noteq> []" "token_no_exp \<noteq> []" "token_no_user \<noteq> []"
  "token_object_exp \<noteq> []" "token_object_user \<noteq> []"
  by (simp_all add: token_2000_def token_500_def token_0_def token_no_exp_def token_no_user_def
        token_object_exp_def token_object_user_def)



lemma demo_refuses:
  "D1_refuses demo st
     = list_ex (\<lambda>v. case v of JStr s \<Rightarrow> 2000000 < length s | _ \<Rightarrow> False) (parameters st)"
  by (simp add: demo_def)

section \<open>Steps in order\<close>


lemma collect_map_Inl:
  "x \<in> set xs \<Longrightarrow> f x = Inl e \<Longrightarrow> \<exists>e'. collect (map f xs) = Inl e'"
  by (induction xs) (auto split: sum.splits)

lemma collect_map_results:
  "collect (map f xs) = Inr ys \<Longrightarrow> list_all2 (\<lambda>x y. f x = Inr y) xs ys"
  by (induction xs arbitrary: ys) (auto split: sum.splits)

lemma boundEntries_keys:
  assumes "boundEntries p userId entries = Inr bound"
  shows "map (\<lambda>(uid, k, s). k) bound = map fst entries"
proof -
  have "list_all2 (\<lambda>x y. (case x of (key, v) \<Rightarrow>
                     case storedValue p v of
                       Inl e \<Rightarrow> Inl e
                     | Inr s \<Rightarrow> (case bind_value p userId of
                                   Inl e \<Rightarrow> Inl e
                                 | Inr uid \<Rightarrow> Inr (uid, key, s))) = Inr y) entries bound"
    using assms unfolding boundEntries_def by (rule collect_map_results)
  then show ?thesis
    by (induction entries bound rule: list_all2_induct) (auto split: sum.splits)
qed

lemma boundKeys_keys:
  assumes "boundKeys p userId keys = Inr bound"
  shows "map snd bound = keys"
proof -
  have "list_all2 (\<lambda>x y. (case bind_value p userId of
                            Inl e \<Rightarrow> Inl e
                          | Inr uid \<Rightarrow> Inr (uid, x)) = Inr y) keys bound"
    using assms unfolding boundKeys_def by (rule collect_map_results)
  then show ?thesis
    by (induction keys bound rule: list_all2_induct) (auto split: sum.splits)
qed

section \<open>Routing\<close>

lemma fold_push:
  "fold (\<lambda>x acc. push (g x) (h x) acc) xs acc table
     = acc table @ map h (filter (\<lambda>x. g x = table) xs)"
  by (induction xs arbitrary: acc) (auto simp: push_def)

lemma groupKeys_filter: "groupKeys keys table = filter (\<lambda>key. getTableForKey key = table) keys"
  using fold_push [of getTableForKey "\<lambda>key. key" keys "\<lambda>table. []" table]
  by (simp add: groupKeys_def)

lemma writeStatements_fold:
  "fold (\<lambda>(uid, key, s) groupedStatements.
             push (getTableForKey key) (Upsert (getTableForKey key) uid key s) groupedStatements)
       bound acc table
     = acc table @ map (\<lambda>(uid, key, s). Upsert table uid key s)
         (filter (\<lambda>(uid, key, s). getTableForKey key = table) bound)"
  by (induction bound arbitrary: acc) (auto simp: push_def)

lemma writeStatements_filter:
  "writeStatements bound table
     = map (\<lambda>(uid, key, s). Upsert table uid key s)
         (filter (\<lambda>(uid, key, s). getTableForKey key = table) bound)"
  by (simp add: writeStatements_def writeStatements_fold)

lemma deleteStatements_fold:
  "fold (\<lambda>(uid, key) groupedStatements.
             push (getTableForKey key) (Delete (getTableForKey key) uid key) groupedStatements)
       bound acc table
     = acc table @ map (\<lambda>(uid, key). Delete table uid key)
         (filter (\<lambda>(uid, key). getTableForKey key = table) bound)"
  by (induction bound arbitrary: acc) (auto simp: push_def)

lemma deleteStatements_filter:
  "deleteStatements bound table
     = map (\<lambda>(uid, key). Delete table uid key) (filter (\<lambda>(uid, key). getTableForKey key = table) bound)"
  by (simp add: deleteStatements_def deleteStatements_fold)

text \<open>
  C4. The table of a key is a function of the key's name alone: the four favorite names
  go to \<^verbatim>\<open>favorites_store\<close> and every other name to \<^verbatim>\<open>playback_store\<close>. In the
  grouping of \<^verbatim>\<open>handleGet\<close>, \<^verbatim>\<open>handlePost\<close> and \<^verbatim>\<open>handleDelete\<close> each key of a request
  lands in the list of exactly that table, whatever the other keys of the request are;
  the statements of a write and of a delete are bound for the keys of the request, one
  for each key in the order of the request.
\<close>

theorem routing_by_key_name:
  "getTableForKey key
     = (if key = ''favoriteSongs'' \<or> key = ''currentFavoriteIndex''
           \<or> key = ''favoritePlayMode'' \<or> key = ''favoritePlaybackTime''
        then favorites_store else playback_store)
   \<and> groupKeys keys table = filter (\<lambda>k. getTableForKey k = table) keys
   \<and> writeStatements bound table
       = map (\<lambda>(uid, k, s). Upsert table uid k s)
           (filter (\<lambda>(uid, k, s). getTableForKey k = table) bound)
   \<and> deleteStatements bound' table
       = map (\<lambda>(uid, k). Delete table uid k) (filter (\<lambda>(uid, k). getTableForKey k = table) bound')
   \<and> (boundEntries p userId entries = Inr bound \<longrightarrow> map (\<lambda>(uid, k, s). k) bound = map fst entries)
   \<and> (boundKeys p userId keys = Inr bound' \<longrightarrow> map snd bound' = keys)"
proof -
  have "getTableForKey key
          = (if key = ''favoriteSongs'' \<or> key = ''currentFavoriteIndex''
                \<or> key = ''favoritePlayMode'' \<or> key = ''favoritePlaybackTime''
             then favorites_store else playback_store)"
    by (simp add: getTableForKey_def FAVORITE_KEYS_def TABLES_favorites_def TABLES_playback_def)
  then show ?thesis
    using groupKeys_filter [of keys table] writeStatements_filter [of bound table]
      deleteStatements_filter [of bound' table] boundEntries_keys [of p userId entries bound]
      boundKeys_keys [of p userId keys bound']
    by blast
qed

theorem routing_by_key_name_witness:
  "getTableForKey ''favoriteSongs'' = favorites_store
   \<and> getTableForKey ''volume'' = playback_store
   \<and> groupKeys [''volume'', ''favoriteSongs'', ''queue''] playback_store = [''volume'', ''queue'']
   \<and> groupKeys [''volume'', ''favoriteSongs'', ''queue''] favorites_store = [''favoriteSongs'']
   \<and> boundEntries demo (JStr ''u1'') [(''volume'', JNum 80), (''favoriteSongs'', JNull)]
       = Inr [(JStr ''u1'', ''volume'', ''80''), (JStr ''u1'', ''favoriteSongs'', [])]
   \<and> writeStatements [(JStr ''u1'', ''volume'', ''80''), (JStr ''u1'', ''favoriteSongs'', [])] favorites_store
       = [Upsert favorites_store (JStr ''u1'') ''favoriteSongs'' []]
   \<and> boundKeys demo (JStr ''u1'') [''volume'', ''favoriteSongs'', ''queue'']
       = Inr [(JStr ''u1'', ''volume''), (JStr ''u1'', ''favoriteSongs''), (JStr ''u1'', ''queue'')]
   \<and> deleteStatements [(JStr ''u1'', ''volume''), (JStr ''u1'', ''favoriteSongs''), (JStr ''u1'', ''queue'')]
         playback_store
       = [Delete playback_store (JStr ''u1'') ''volume'', Delete playback_store (JStr ''u1'') ''queue'']"
proof -
  have s: "show_int 80 = ''80''"
    by (simp add: show_int_def show_nat.simps)
  have b: "boundEntries demo (JStr ''u1'') [(''volume'', JNum 80), (''favoriteSongs'', JNull)]
             = Inr [(JStr ''u1'', ''volume'', ''80''), (JStr ''u1'', ''favoriteSongs'', [])]"
    by (simp add: boundEntries_def storedValue_def bind_value_def s)
  have d: "boundKeys demo (JStr ''u1'') [''volume'', ''favoriteSongs'', ''queue'']
             = Inr [(JStr ''u1'', ''volume''), (JStr ''u1'', ''favoriteSongs''), (JStr ''u1'', ''queue'')]"
    by (simp add: boundKeys_def bind_value_def)
  show ?thesis
    using b d
      routing_by_key_name [of "''favoriteSongs''" "[''volume'', ''favoriteSongs'', ''queue'']"
          playback_store "[(JStr ''u1'', ''volume'', ''80''), (JStr ''u1'', ''favoriteSongs'', [])]"
          "[(JStr ''u1'', ''volume''), (JStr ''u1'', ''favoriteSongs''), (JStr ''u1'', ''queue'')]"
          demo "JStr ''u1''" "[(''volume'', JNum 80), (''favoriteSongs'', JNull)]"]
      routing_by_key_name [of "''volume''" "[''volume'', ''favoriteSongs'', ''queue'']"
          favorites_store "[(JStr ''u1'', ''volume'', ''80''), (JStr ''u1'', ''favoriteSongs'', [])]"
          "[(JStr ''u1'', ''volume''), (JStr ''u1'', ''favoriteSongs''), (JStr ''u1'', ''queue'')]"
          demo "JStr ''u1''" "[(''volume'', JNum 80), (''favoriteSongs'', JNull)]"]
    by (simp add: getTableForKey_def FAVORITE_KEYS_def TABLES_favorites_def TABLES_playback_def)
qed

section \<open>When a session is accepted\<close>

lemma truthy_opt_Some: "truthy_opt v \<Longrightarrow> v \<noteq> None"
  by (cases v) (auto simp: truthy_opt_def)

lemma getUserId_Some_iff:
  "(getUserIdFromRequest p now request \<noteq> None)
     = (\<exists>token sessionData exp userId.
          google_auth request = Some token \<and> token \<noteq> []
          \<and> decodeSession p token = Some sessionData
          \<and> get_prop sessionData ''exp'' = Inr exp
          \<and> get_prop sessionData ''userId'' = Inr userId
          \<and> truthy_opt exp \<and> js_gt p exp now = Inr True \<and> truthy_opt userId)"
proof (cases "google_auth request")
  case None
  then show ?thesis by (simp add: getUserIdFromRequest_def)
next
  case (Some token)
  show ?thesis
  proof (cases "decodeSession p token")
    case None
    with Some show ?thesis by (simp add: getUserIdFromRequest_def)
  next
    case sd: (Some sessionData)
    show ?thesis
    proof (cases "get_prop sessionData ''exp''")
      case (Inl e)
      with Some sd show ?thesis by (simp add: getUserIdFromRequest_def)
    next
      case (Inr exp)
      then obtain userId where u: "get_prop sessionData ''userId'' = Inr userId"
        by (cases sessionData) auto
      show ?thesis
        using Some sd Inr u truthy_opt_Some [of userId]
        by (cases "js_gt p exp now") (auto simp: getUserIdFromRequest_def)
    qed
  qed
qed

text \<open>
  A session that is not valid in the words of the specification (the cookie is missing or
  does not decode, or its expiry is not greater than the current time) is not accepted by
  the sync handler.
\<close>

lemma invalid_session_has_no_user:
  "\<not> session_valid_spec p now request \<Longrightarrow> getUserIdFromRequest p now request = None"
  by (auto simp: session_valid_spec_def getUserIdFromRequest_def split: option.splits sum.splits)

lemma handleGet_refused_iff:
  "refused (response_of (handleGet p now request env))
     = (hasD1 env \<and> getUserIdFromRequest p now request = None)"
  by (auto simp: handleGet_def refused_def response_of_def body_field_def jsonResponse_def
      hasD1_def Let_def split: option.splits sum.splits)

lemma handlePost_refused_iff:
  "refused (response_of (handlePost p now request env))
     = (hasD1 env \<and> getUserIdFromRequest p now request = None)"
  by (auto simp: handlePost_def refused_def response_of_def body_field_def jsonResponse_def
      hasD1_def Let_def split: option.splits sum.splits json.splits)

lemma handleDelete_refused_iff:
  "refused (response_of (handleDelete p now request env))
     = (hasD1 env \<and> getUserIdFromRequest p now request = None)"
  by (auto simp: handleDelete_def refused_def response_of_def body_field_def jsonResponse_def
      hasD1_def Let_def split: option.splits sum.splits)

lemma whoami_authenticated_iff:
  "authenticated (onRequestPost p now request)
     = (map_of (searchParams request) ''action'' \<noteq> Some ''logout''
        \<and> (\<exists>token sessionData exp.
              google_auth request = Some token \<and> token \<noteq> []
              \<and> decodeSession p token = Some sessionData
              \<and> get_prop sessionData ''exp'' = Inr exp
              \<and> (\<not> truthy_opt exp \<or> js_lt p exp now = Inr False)))"
proof -
  have k: "get_prop sd ''exp'' = Inr e \<Longrightarrow>
             \<exists>a b c. get_prop sd ''userId'' = Inr a \<and> get_prop sd ''email'' = Inr b
                      \<and> get_prop sd ''name'' = Inr c" for sd e
    by (cases sd) auto
  show ?thesis
    by (auto simp: onRequestPost_def authenticated_def not_authenticated_def body_field_def
        split: option.splits sum.splits dest: k)
qed

text \<open>
  C3, as amended. A sync operation accepts a session exactly when
  \<^verbatim>\<open>getUserIdFromRequest\<close> returns a user id: the cookie \<^verbatim>\<open>google_auth\<close> is present and
  not empty, it decodes, and in the decoded value \<^verbatim>\<open>exp\<close> is truthy, the comparison
  \<^verbatim>\<open>exp > Date.now()\<close> yields true and \<^verbatim>\<open>userId\<close> is truthy. With a database bound,
  \<^verbatim>\<open>handleGet\<close>, \<^verbatim>\<open>handlePost\<close> and \<^verbatim>\<open>handleDelete\<close> answer \<^verbatim>\<open>Not authenticated\<close>
  exactly when it returns \<^verbatim>\<open>null\<close>. WhoAmI (\<^verbatim>\<open>onRequestPost\<close> without
  \<^verbatim>\<open>action=logout\<close>) answers \<^verbatim>\<open>authenticated: true\<close> exactly when the cookie is
  present and not empty, it decodes to a value other than \<^verbatim>\<open>null\<close>, and \<^verbatim>\<open>exp\<close> is
  falsy or the comparison \<^verbatim>\<open>exp < Date.now()\<close> yields false. A comparison that throws
  (for an \<^verbatim>\<open>exp\<close> that is an object with a property \<^verbatim>\<open>toString\<close>) yields neither true
  nor false: the session is refused by both.
\<close>

theorem session_acceptance:
  "(getUserIdFromRequest p now request \<noteq> None)
     = (\<exists>token sessionData exp userId.
          google_auth request = Some token \<and> token \<noteq> []
          \<and> decodeSession p token = Some sessionData
          \<and> get_prop sessionData ''exp'' = Inr exp
          \<and> get_prop sessionData ''userId'' = Inr userId
          \<and> truthy_opt exp \<and> js_gt p exp now = Inr True \<and> truthy_opt userId)
   \<and> refused (response_of (handleGet p now request env))
       = (hasD1 env \<and> getUserIdFromRequest p now request = None)
   \<and> refused (response_of (handlePost p now request env))
       = (hasD1 env \<and> getUserIdFromRequest p now request = None)
   \<and> refused (response_of (handleDelete p now request env))
       = (hasD1 env \<and> getUserIdFromRequest p now request = None)
   \<and> authenticated (onRequestPost p now request)
       = (map_of (searchParams request) ''action'' \<noteq> Some ''logout''
          \<and> (\<exists>token sessionData exp.
                google_auth request = Some token \<and> token \<noteq> []
                \<and> decodeSession p token = Some sessionData
                \<and> get_prop sessionData ''exp'' = Inr exp
                \<and> (\<not> truthy_opt exp \<or> js_lt p exp now = Inr False)))"
  using getUserId_Some_iff [of p now request] handleGet_refused_iff [of p now request env]
        handlePost_refused_iff [of p now request env] handleDelete_refused_iff [of p now request env]
        whoami_authenticated_iff [of p now request]
  by blast

theorem session_acceptance_witness:
  "getUserIdFromRequest demo 1000 (sync_request ''GET'' (with_token token_2000) [] None) \<noteq> None
   \<and> \<not> refused (response_of (handleGet demo 1000 (sync_request ''GET'' (with_token token_2000) [] None)
                                (demo_env (Some empty_db))))
   \<and> authenticated (onRequestPost demo 1000 (sync_request ''GET'' (with_token token_2000) [] None))
   \<and> \<not> authenticated (onRequestPost demo 1000 (sync_request ''GET'' (with_token token_500) [] None))
   \<and> js_lt demo (Some (JObj [(''toString'', JNum 1)])) 1000 = Inl TypeError
   \<and> \<not> authenticated (onRequestPost demo 1000 (sync_request ''GET'' (with_token token_object_exp) [] None))
   \<and> getUserIdFromRequest demo 1000 (sync_request ''GET'' (with_token token_object_exp) [] None) = None"
  using session_acceptance [of demo 1000 "sync_request ''GET'' (with_token token_2000) [] None"
                               "demo_env (Some empty_db)"]
        session_acceptance [of demo 1000 "sync_request ''GET'' (with_token token_500) [] None"
                               "demo_env (Some empty_db)"]
        session_acceptance [of demo 1000 "sync_request ''GET'' (with_token token_object_exp) [] None"
                               "demo_env (Some empty_db)"]
  by (simp add: user_2000 google_auth_with_token_2000 decode_2000 google_auth_with_token_500 decode_500
        google_auth_with_token_object_exp decode_object_exp
        tokens_not_empty truthy_opt_def js_lt_def js_gt_def)

text \<open>
  C3 as stated fails in both directions. A cookie that decodes to \<^verbatim>\<open>{"userId":"u1"}\<close>
  has no expiry greater than the current time, and WhoAmI answers
  \<^verbatim>\<open>authenticated: true\<close>; so it does at time 2000 for a cookie that expires at 2000. A
  cookie that decodes to \<^verbatim>\<open>{"exp":2000}\<close> at time 1000 decodes and has not expired, and
  \<^verbatim>\<open>handleGet\<close> answers \<^verbatim>\<open>Not authenticated\<close>.
\<close>

theorem session_acceptance_counterexample:
  "authenticated (onRequestPost demo 1000 (sync_request ''POST'' (with_token token_no_exp) [] None))
   \<and> \<not> session_valid_spec demo 1000 (sync_request ''POST'' (with_token token_no_exp) [] None)
   \<and> authenticated (onRequestPost demo 2000 (sync_request ''POST'' (with_token token_2000) [] None))
   \<and> \<not> session_valid_spec demo 2000 (sync_request ''POST'' (with_token token_2000) [] None)
   \<and> session_valid_spec demo 1000 (sync_request ''GET'' (with_token token_no_user) [] None)
   \<and> refused (response_of (handleGet demo 1000 (sync_request ''GET'' (with_token token_no_user) [] None)
                              (demo_env (Some empty_db))))"
  by (simp add: whoami_authenticated_iff handleGet_refused_iff session_valid_spec_def hasD1_def
        getUserIdFromRequest_def
        google_auth_with_token_no_exp decode_no_exp google_auth_with_token_no_user decode_no_user
        google_auth_with_token_2000 decode_2000
        tokens_not_empty truthy_opt_def js_gt_def js_lt_def)

section \<open>An expired cookie and no cookie\<close>

lemma js_lt_not_gt: "js_lt p e n = Inr True \<Longrightarrow> js_gt p e n = Inr False"
  by (auto simp: js_lt_def js_gt_def split: option.splits sum.splits)

lemma expired_no_user:
  assumes "google_auth request = Some token" and "decodeSession p token = Some sessionData"
      and "get_prop sessionData ''exp'' = Inr exp" and "js_lt p exp now = Inr True"
  shows "getUserIdFromRequest p now request = None"
  using assms js_lt_not_gt [of p exp now]
  by (auto simp: getUserIdFromRequest_def split: option.splits sum.splits)

lemma absent_no_user:
  "google_auth request = None \<Longrightarrow> getUserIdFromRequest p now request = None"
  by (simp add: getUserIdFromRequest_def)

text \<open>
  C5, as amended. A request whose session cookie decodes to a value whose \<^verbatim>\<open>exp\<close> is
  truthy (a number: not zero) and less than the current time gets from \<^verbatim>\<open>handleGet\<close>,
  \<^verbatim>\<open>handlePost\<close>, \<^verbatim>\<open>handleDelete\<close>, the dispatcher \<^verbatim>\<open>onRequest\<close> and WhoAmI the
  response, and the store, that the same request gets with a \<^verbatim>\<open>Cookie\<close> header that
  holds no \<^verbatim>\<open>google_auth\<close> cookie (or with no \<^verbatim>\<open>Cookie\<close> header).
\<close>

theorem expired_cookie_is_like_no_cookie:
  assumes "google_auth request = Some token"
      and "decodeSession p token = Some sessionData"
      and "get_prop sessionData ''exp'' = Inr exp"
      and "truthy_opt exp" and "js_lt p exp now = Inr True"
      and "google_auth (request\<lparr>Cookie := c\<rparr>) = None"
  shows "handleGet p now request env = handleGet p now (request\<lparr>Cookie := c\<rparr>) env
       \<and> handlePost p now request env = handlePost p now (request\<lparr>Cookie := c\<rparr>) env
       \<and> handleDelete p now request env = handleDelete p now (request\<lparr>Cookie := c\<rparr>) env
       \<and> onRequest p now request env = onRequest p now (request\<lparr>Cookie := c\<rparr>) env
       \<and> onRequestPost p now request = onRequestPost p now (request\<lparr>Cookie := c\<rparr>)"
proof -
  have u: "getUserIdFromRequest p now request = None"
    using assms(1,2,3,5) by (rule expired_no_user)
  have u': "getUserIdFromRequest p now (request\<lparr>Cookie := c\<rparr>) = None"
    using assms(6) by (rule absent_no_user)
  have g: "handleGet p now request env = handleGet p now (request\<lparr>Cookie := c\<rparr>) env"
    using u u' by (simp add: handleGet_def split: option.splits)
  have w: "handlePost p now request env = handlePost p now (request\<lparr>Cookie := c\<rparr>) env"
    using u u' by (simp add: handlePost_def split: option.splits)
  have d: "handleDelete p now request env = handleDelete p now (request\<lparr>Cookie := c\<rparr>) env"
    using u u' by (simp add: handleDelete_def split: option.splits)
  have r: "onRequest p now request env = onRequest p now (request\<lparr>Cookie := c\<rparr>) env"
    using g w d by (simp add: onRequest_def Let_def)
  have a: "onRequestPost p now request = onRequestPost p now (request\<lparr>Cookie := c\<rparr>)"
    using assms by (simp add: onRequestPost_def)
  show ?thesis using g w d r a by simp
qed

theorem expired_cookie_is_like_no_cookie_witness:
  "js_lt demo (Some (JNum 500)) 1000 = Inr True
   \<and> handleGet demo 1000 (sync_request ''GET'' (with_token token_500) [] None) (demo_env (Some empty_db))
       = handleGet demo 1000 (sync_request ''GET'' None [] None) (demo_env (Some empty_db))
   \<and> onRequestPost demo 1000 (sync_request ''POST'' (with_token token_500) [] None)
       = onRequestPost demo 1000 (sync_request ''POST'' None [] None)"
proof -
  have e: "get_prop (JObj [(''userId'', JStr ''u1''), (''exp'', JNum 500)]) ''exp'' = Inr (Some (JNum 500))"
    by simp
  have t: "truthy_opt (Some (JNum 500))" by (simp add: truthy_opt_def)
  have l: "js_lt demo (Some (JNum 500)) 1000 = Inr True" by (simp add: js_lt_def)
  have n: "google_auth ((sync_request m (with_token token_500) [] None)\<lparr>Cookie := None\<rparr>) = None" for m
    by (simp add: google_auth_def cookieHeader_of_def parseCookies_def)
  have s: "(sync_request m (with_token token_500) [] None)\<lparr>Cookie := None\<rparr> = sync_request m None [] None" for m
    by (simp add: sync_request_def)
  show ?thesis
    using l
      expired_cookie_is_like_no_cookie [OF google_auth_with_token_500 decode_500 e t l n,
                                        of "''GET''" "demo_env (Some empty_db)"]
      expired_cookie_is_like_no_cookie [OF google_auth_with_token_500 decode_500 e t l n,
                                        of "''POST''" "demo_env (Some empty_db)"]
    by (simp add: s)
qed

text \<open>
  C5 as stated fails for WhoAmI: the expiry 0 is less than the current time 1000, and the
  request with that cookie is answered \<^verbatim>\<open>authenticated: true\<close>, the request without a
  cookie \<^verbatim>\<open>authenticated: false\<close>.
\<close>

theorem expiry_zero_counterexample:
  "decodeSession demo token_0 = Some (JObj [(''userId'', JStr ''u1''), (''exp'', JNum 0)])
   \<and> (0 :: int) < 1000
   \<and> authenticated (onRequestPost demo 1000 (sync_request ''POST'' (with_token token_0) [] None))
   \<and> \<not> authenticated (onRequestPost demo 1000 (sync_request ''POST'' None [] None))
   \<and> onRequestPost demo 1000 (sync_request ''POST'' (with_token token_0) [] None)
       \<noteq> onRequestPost demo 1000 (sync_request ''POST'' None [] None)"
proof -
  have a: "authenticated (onRequestPost demo 1000 (sync_request ''POST'' (with_token token_0) [] None))"
    by (simp add: whoami_authenticated_iff decode_0 google_auth_with_token_0 tokens_not_empty
          truthy_opt_def)
  have b: "\<not> authenticated (onRequestPost demo 1000 (sync_request ''POST'' None [] None))"
    by (simp add: whoami_authenticated_iff google_auth_none)
  from a b have "onRequestPost demo 1000 (sync_request ''POST'' (with_token token_0) [] None)
                   \<noteq> onRequestPost demo 1000 (sync_request ''POST'' None [] None)"
    by auto
  with a b show ?thesis by (simp add: decode_0)
qed

section \<open>Sync operations without a session or without a store\<close>





section \<open>Methods of the sync endpoint\<close>








text \<open>
  The strings \<^verbatim>\<open>get\<close> and the empty string are none of the four names, and
  \<^verbatim>\<open>onRequest\<close> handles both as a read (here: answered with status 200 by
  \<^verbatim>\<open>handleGet\<close>). Neither is the method of a request: a \<^verbatim>\<open>Request\<close> holds \<^verbatim>\<open>GET\<close>
  for \<^verbatim>\<open>get\<close>, and no empty method.
\<close>

lemma lower_case_method_is_read:
  "\<not> fetch_method ''get'' \<and> \<not> fetch_method [] \<and> normalize_method ''get'' = ''GET''
   \<and> onRequest demo 1000 (sync_request ''get'' None [] None) (demo_env None)
       = Inr (jsonResponse (JObj [(''d1Available'', JBool False), (''data'', JObj [])]) 200, demo_env None)
   \<and> onRequest demo 1000 (sync_request [] None [] None) (demo_env None)
       = Inr (jsonResponse (JObj [(''d1Available'', JBool False), (''data'', JObj [])]) 200, demo_env None)"
  by (simp add: onRequest_def Let_def upper_char_def lower_letters_def upper_letters_def
        handleGet_def jsonResponse_def fetch_method_def normalize_method_def byte_uppercase_def)

section \<open>The keys a read names\<close>





section \<open>Association lists\<close>



section \<open>The data object of a read\<close>









section \<open>What a read returns\<close>




lemma select_keys_too_many:
  "bind_value p userId = Inr uid \<Longrightarrow> 100 \<le> length tableKeys \<Longrightarrow>
     select_keys p userId tableKeys table db = Inl D1_ERROR"
  by (simp add: select_keys_def all_rows_def runs_def D1_MAX_BOUND_PARAMETERS_def)








text \<open>
  A read that names a hundred keys of one table, or more, is not answered: its query
  binds the user id and the keys, and the service refuses more than 100 parameters.
\<close>

lemma handleGet_too_many_keys:
  assumes "DB env = Some db" and "getUserIdFromRequest p now request = Some userId"
      and "bind_value p userId = Inr uid"
      and "\<not> str_truthy (map_of (searchParams request) ''status'')"
      and "100 \<le> length (groupKeys (requestedKeys request) playback_store)"
  shows "handleGet p now request env = Inl D1_ERROR"
proof -
  let ?keys = "requestedKeys request"
  have k: "?keys \<noteq> []" "groupKeys ?keys playback_store \<noteq> []"
    using assms(5) by (auto simp: groupKeys_filter)
  have s: "select_keys p userId (groupKeys ?keys playback_store) playback_store db = Inl D1_ERROR"
    using assms(3,5) by (rule select_keys_too_many)
  have "\<exists>rest. map (\<lambda>table. if groupKeys ?keys table = [] then Inr []
                          else select_keys p userId (groupKeys ?keys table) table db)
             [TABLES_playback, TABLES_favorites]
           = Inl D1_ERROR # rest"
    using k s by (simp add: TABLES_playback_def)
  then obtain rest where m: "map (\<lambda>table. if groupKeys ?keys table = [] then Inr []
                          else select_keys p userId (groupKeys ?keys table) table db)
             [TABLES_playback, TABLES_favorites]
           = Inl D1_ERROR # rest" ..
  have "readRows p userId ?keys db = Inl D1_ERROR"
    unfolding readRows_def m using k by simp
  then show ?thesis
    using assms(1,2,4) by (simp add: handleGet_def Let_def ensureTables_def readData_def)
qed

section \<open>What a write and a delete leave in the store\<close>



















lemma runBatches_refused:
  assumes "\<not> list_all (runs p) (g playback_store)"
  shows "runBatches p g db = Inl D1_ERROR"
proof -
  have "g playback_store \<noteq> []" using assms by auto
  with assms show ?thesis
    by (simp add: runBatches_def TABLES_playback_def TABLES_favorites_def batch_def)
qed







section \<open>What a write answers\<close>




section \<open>The count a write reports\<close>




text \<open>
  A write that the database service refuses is not answered either: the service of the
  examples refuses a string of more than 2000000 characters.
\<close>

lemma demo_refuses_a_long_value:
  "handlePost demo 1000
     (sync_request ''POST'' (with_token token_2000) []
        (Some (JObj [(''data'', JObj [(''volume'', JStr (replicate 2000001 CHR ''x''))])])))
     (demo_env (Some empty_db))
   = Inl D1_ERROR"
  by (simp add: handlePost_def Let_def user_2000 boundEntries_def
        storedValue_def bind_value_def ensureTables_def
        runBatches_def batch_def runs_def demo_refuses D1_MAX_BOUND_PARAMETERS_def
        writeStatements_filter getTableForKey_def FAVORITE_KEYS_def
        TABLES_playback_def TABLES_favorites_def)

section \<open>Write, then read\<close>




text \<open>
  The example of the specification: \<^verbatim>\<open>POST /api/sync {"data":{"volume":"80","favoriteSongs":"[1,2,3]"}}\<close>
  and then \<^verbatim>\<open>GET /api/sync?keys=volume,favoriteSongs\<close>.
\<close>

lemma demo_write_then_read:
  "write_then_read demo 1000
     (sync_request ''POST'' (with_token token_2000) []
        (Some (JObj [(''data'', JObj [(''volume'', JStr ''80''), (''favoriteSongs'', JStr ''[1,2,3]'')])])))
     1000
     (sync_request ''GET'' (with_token token_2000) [(''keys'', ''volume,favoriteSongs'')] None)
     (demo_env (Some empty_db))
   = Some (jsonResponse
             (JObj [(''d1Available'', JBool True),
                    (''data'', JObj [(''volume'', JStr ''80''), (''favoriteSongs'', JStr ''[1,2,3]'')])])
             200)"
  by (simp add: write_then_read_def response_of_def handlePost_def handleGet_def user_2000 Let_def
        ensureTables_def boundEntries_def bind_value_def
        runBatches_def writeStatements_filter storedValue_def batch_def runs_def demo_refuses all_rows_def
        getTableForKey_def FAVORITE_KEYS_def TABLES_playback_def TABLES_favorites_def
        rows_of_def put_rows_def upsert_row_def row_is_def empty_db_def str_truthy_def
        requestedKeys_def trim_def isWhiteSpace_def readData_def readRows_def groupKeys_filter
        select_keys_def D1_MAX_BOUND_PARAMETERS_def matching_keys_def fillData_def
        data_set_def empty_data_def json_of_value_def)


section \<open>Delete, then read\<close>







section \<open>The cookie of the OAuth callback\<close>

text \<open>
  What \<^verbatim>\<open>onRequestGet\<close> builds after a successful exchange is the cookie of the
  specification: the token is \<^verbatim>\<open>btoa(JSON.stringify({userId, email, name, exp}))\<close> with
  \<^verbatim>\<open>exp\<close> thirty days (2592000000 ms) after the current time, and the cookie text is
  \<^verbatim>\<open>google_auth=<token>; Max-Age=2592000; Path=/; SameSite=Lax; HttpOnly\<close>, followed by
  \<^verbatim>\<open>; Secure\<close> exactly when the protocol is \<^verbatim>\<open>https:\<close>.
\<close>

lemma show_MAX_AGE_SECONDS: "show_int MAX_AGE_SECONDS = ''2592000''"
  by (simp add: MAX_AGE_SECONDS_def show_int_def show_nat.simps)

lemma sessionCookie_text:
  "sessionCookie sessionToken protocol
     = ''google_auth='' @ sessionToken @ ''; Max-Age=2592000; Path=/; SameSite=Lax; HttpOnly''
       @ (if protocol = ''https:'' then ''; Secure'' else [])"
  by (simp add: sessionCookie_def show_MAX_AGE_SECONDS)

lemma sessionPayload_fields:
  "sessionPayload \<lparr>ui_id = Some i, ui_email = Some e, ui_name = Some n, ui_picture = pic\<rparr> now
     = JObj [(''userId'', i), (''email'', e), (''name'', n), (''exp'', JNum (now + 2592000000))]"
  by (simp add: sessionPayload_def obj_def List.map_filter_def MAX_AGE_SECONDS_def)

lemma Response_redirect_headers:
  "Response_redirect p url st init = Inr r \<Longrightarrow> map_of (headers r) ''Set-Cookie'' = None"
  by (auto simp: Response_redirect_def split: option.splits if_splits)

lemma authError_headers: "map_of (headers (authError m s)) ''Set-Cookie'' = None"
  by (simp add: authError_def AUTH_HEADERS_def)

lemma issueSession_headers:
  "map_of (headers (fst (issueSession p now request env1 userInfo))) ''Set-Cookie'' = None"
  by (auto simp: issueSession_def authError_headers split: option.splits sum.splits
      dest: Response_redirect_headers)

lemma exchangeCode_headers:
  "map_of (headers (fst (exchangeCode p now request env uri))) ''Set-Cookie'' = None"
  by (simp add: exchangeCode_def authError_headers issueSession_headers
      split: option.splits sum.splits)

text \<open>
  C8. The cookie never reaches the response. \<^verbatim>\<open>onRequestGet\<close> hands it to
  \<^verbatim>\<open>Response.redirect\<close> as a third argument, which that method does not have (the logout
  branch of \<^verbatim>\<open>onRequestPost\<close> sets its cookie through the \<^verbatim>\<open>Response\<close> constructor,
  which does take headers). No response of \<^verbatim>\<open>onRequestGet\<close>, the redirect of a
  successful exchange included, has a \<^verbatim>\<open>Set-Cookie\<close> header.
\<close>

theorem oauth_redirect_carries_no_cookie:
  "map_of (headers (fst (onRequestGet p now request env))) ''Set-Cookie'' = None"
  by (simp add: onRequestGet_def Let_def authError_headers exchangeCode_headers AUTH_HEADERS_def)

text \<open>
  A successful exchange over \<^verbatim>\<open>https\<close>: the code \<^verbatim>\<open>code-1\<close> is exchanged for a token,
  the profile is fetched, and the answer is the redirect to \<^verbatim>\<open>state\<close> with the one
  header \<^verbatim>\<open>Location\<close>.
\<close>

lemma demo_exchange:
  "onRequestGet demo 1000
     (sync_request ''GET'' None [(''code'', ''code-1''), (''state'', ''https://app.example/'')] None)
     (demo_env None)
   = (\<lparr>status = 302, headers = [(''Location'', ''https://app.example/'')], body = None\<rparr>,
      demo_env None)"
  by (simp add: onRequestGet_def exchangeCode_def issueSession_def Let_def str_truthy_def or_else_def
        demo_env_def demo_def getGoogleUserInfo_def Response_redirect_def sessionPayload_def obj_def
        List.map_filter_def MAX_AGE_SECONDS_def session_texts_def sync_request_def)

theorem oauth_redirect_carries_no_cookie_witness:
  "onRequestGet demo 1000
     (sync_request ''GET'' None [(''code'', ''code-1''), (''state'', ''https://app.example/'')] None)
     (demo_env None)
   = (\<lparr>status = 302, headers = [(''Location'', ''https://app.example/'')], body = None\<rparr>,
      demo_env None)
   \<and> map_of (headers (fst (onRequestGet demo 1000
        (sync_request ''GET'' None [(''code'', ''code-1''), (''state'', ''https://app.example/'')] None)
        (demo_env None)))) ''Set-Cookie'' = None
   \<and> btoa demo (JSON_stringify demo
        (sessionPayload \<lparr>ui_id = Some (JStr ''u1''), ui_email = Some (JStr ''ann@example.com''),
                         ui_name = Some (JStr ''Ann''), ui_picture = None\<rparr> 1000))
      = Some ''eyJ1c2VySWQiOiJ1MSIsImVtYWlsIjoiYW5uQGV4YW1wbGUuY29tIiwibmFtZSI6IkFubiIsImV4cCI6MjU5MjAwMTAwMH0=''"
proof -
  have t: "btoa demo (JSON_stringify demo
             (sessionPayload \<lparr>ui_id = Some (JStr ''u1''), ui_email = Some (JStr ''ann@example.com''),
                              ui_name = Some (JStr ''Ann''), ui_picture = None\<rparr> 1000))
           = Some ''eyJ1c2VySWQiOiJ1MSIsImVtYWlsIjoiYW5uQGV4YW1wbGUuY29tIiwibmFtZSI6IkFubiIsImV4cCI6MjU5MjAwMTAwMH0=''"
    by (simp add: sessionPayload_fields demo_def session_texts_def)
  show ?thesis
    using t oauth_redirect_carries_no_cookie [of demo 1000
            "sync_request ''GET'' None [(''code'', ''code-1''), (''state'', ''https://app.example/'')] None"
            "demo_env None"]
    by (simp add: demo_exchange)
qed

end
